theory Spec2Isabelle
  imports Main
begin

section \<open>Data model of \<^verbatim>\<open>binary_generator.py\<close>\<close>

text \<open>
  Paths are strings; \<^verbatim>\<open>Path(output_dir) / file_name\<close> joins with a slash. A dictionary
  whose iteration order is observable (\<^verbatim>\<open>Binary.line_numbers\<close>, iterated by the issue
  detector) is an association list in insertion order.
\<close>

type_synonym path = string

record CompilerConfig =
  compiler_path :: string
  opt_levels :: "string list"
  dbg_levels :: "string list"

record Binary =
  bin_compiler_path :: string
  source_path :: path
  optimization_level :: string
  debug_level :: string
  file_name :: string
  file_path :: path
  hash_value :: "string option"
  line_numbers :: "(string \<times> int list) list"
  hash_algorithm :: string

text \<open>
  Modelled from the spec: the module \<^verbatim>\<open>get_debug_values\<close> and its \<^verbatim>\<open>DebugValue\<close> class are
  imported by \<^verbatim>\<open>binary_generator.py\<close> but are not among the sources. The spec (sections 3
  and 6) gives a DebugValue a name, a textual value, an optional error message and the two
  predicates \<^verbatim>\<open>is_pointer()\<close> and \<^verbatim>\<open>is_known_error()\<close>; the record below carries their
  results as fields. The extraction function itself is a parameter of the detector.
\<close>

record DebugValue =
  name :: string
  dv_value :: string
  error_message :: "string option"
  is_pointer :: bool
  is_known_error :: bool

text \<open>The issue dictionaries built by \<^verbatim>\<open>_find_issues_type1_2\<close>, one field per key.\<close>

record Issue =
  issue_binary :: string
  issue_source_file :: string
  issue_line :: int
  issue_error_message :: string

section \<open>Issue detection: \<^verbatim>\<open>BinaryAnalyzer._find_issues_type1_2\<close>\<close>

text \<open>
  Python truthiness of \<^verbatim>\<open>debug_value.error_message\<close>: \<^verbatim>\<open>None\<close> and the empty string are
  false, every other string is true.
\<close>

definition truthy :: "string option \<Rightarrow> bool" where
  "truthy m = (case m of None \<Rightarrow> False | Some s \<Rightarrow> s \<noteq> [])"

text \<open>The f-string \<^verbatim>\<open>f"{debug_value.name} - {debug_value.error_message}"\<close>.\<close>

definition compose_message :: "DebugValue \<Rightarrow> string" where
  "compose_message dv =
     name dv @ '' - '' @ (case error_message dv of None \<Rightarrow> ''None'' | Some s \<Rightarrow> s)"

definition make_issue :: "Binary \<Rightarrow> string \<Rightarrow> int \<Rightarrow> DebugValue \<Rightarrow> Issue" where
  "make_issue binary source_file line dv =
     \<lparr> issue_binary = file_name binary,
       issue_source_file = source_file,
       issue_line = line,
       issue_error_message = compose_message dv \<rparr>"

text \<open>
  The body of the innermost loop, for one debug value. The three \<^verbatim>\<open>if\<close> statements are
  sequential and not chained with \<^verbatim>\<open>elif\<close>: the first only prints, the second and the third
  each append an issue. The value returned is the list of issues this value appends, in order.
\<close>

definition issues_of_value :: "Binary \<Rightarrow> string \<Rightarrow> int \<Rightarrow> DebugValue \<Rightarrow> Issue list" where
  "issues_of_value binary source_file line dv =
     (if truthy (error_message dv) \<and> \<not> is_known_error dv
      then [make_issue binary source_file line dv] else [])
     @
     (if is_pointer dv \<and> truthy (error_message dv)
      then [make_issue binary source_file line dv] else [])"

text \<open>The loop over the lines of one source file, and the loop over the files of a binary.\<close>

definition issues_of_line ::
  "(string \<Rightarrow> path \<Rightarrow> int \<Rightarrow> DebugValue list) \<Rightarrow> Binary \<Rightarrow> string \<Rightarrow> int \<Rightarrow> Issue list" where
  "issues_of_line get_debug_values binary source_file line =
     concat (map (issues_of_value binary source_file line)
                 (get_debug_values source_file (file_path binary) line))"

definition find_issues_type1_2 ::
  "(string \<Rightarrow> path \<Rightarrow> int \<Rightarrow> DebugValue list) \<Rightarrow> Binary \<Rightarrow> Issue list" where
  "find_issues_type1_2 get_debug_values binary =
     concat (map (\<lambda>(source_file, lines).
                    concat (map (issues_of_line get_debug_values binary source_file) lines))
                 (line_numbers binary))"

text \<open>Concrete inputs used to exercise the detector.\<close>

definition demo_binary :: Binary where
  "demo_binary =
     \<lparr> bin_compiler_path = ''clang'', source_path = ''a.c'',
       optimization_level = ''2'', debug_level = ''3'',
       file_name = ''a_O2_D3.out'', file_path = ''out/a_O2_D3.out'',
       hash_value = Some ''h0'', line_numbers = [(''a.c'', [3])],
       hash_algorithm = ''sha256'' \<rparr>"

definition wild_pointer :: DebugValue where
  "wild_pointer =
     \<lparr> name = ''p'', dv_value = ''0x0'', error_message = Some ''wild read'',
       is_pointer = True, is_known_error = True \<rparr>"

definition wild_scalar :: DebugValue where
  "wild_scalar =
     \<lparr> name = ''x'', dv_value = ''0'', error_message = Some ''wild read'',
       is_pointer = False, is_known_error = True \<rparr>"

definition unknown_pointer :: DebugValue where
  "unknown_pointer =
     \<lparr> name = ''q'', dv_value = ''0x8'', error_message = Some ''bad location'',
       is_pointer = True, is_known_error = False \<rparr>"

section \<open>Line-table fold: \<^verbatim>\<open>get_line_numbers_by_file\<close>\<close>

text \<open>
  \<^verbatim>\<open>LineNumberExtractor.get_line_numbers_by_file\<close> in \<^verbatim>\<open>utils.py\<close> and
  \<^verbatim>\<open>DwarfDumpParser.get_line_numbers_by_file\<close> in \<^verbatim>\<open>get_line_nums.py\<close> have the same body;
  one definition embeds both. The parsed file table is a dictionary from file index to a
  dictionary that may or may not hold the keys \<^verbatim>\<open>'name'\<close> and \<^verbatim>\<open>'dir_index'\<close>; a row is
  the dictionary \<^verbatim>\<open>parse_debug_line\<close> appends, one field per key.
\<close>

record FileTableEntry =
  ft_name :: "string option"
  ft_dir_index :: "int option"

record LineTableRow =
  row_address :: int
  row_line :: int
  row_column :: int
  row_file :: int
  row_isa :: int
  row_discriminator :: int
  row_flags :: string

text \<open>\<^verbatim>\<open>os.path.basename\<close>: what follows the last slash.\<close>

definition basename :: "string \<Rightarrow> string" where
  "basename p = rev (takeWhile (\<lambda>c. c \<noteq> CHR ''/'') (rev p))"

text \<open>The substring test \<^verbatim>\<open>needle in haystack\<close> on strings.\<close>

fun str_contains :: "string \<Rightarrow> string \<Rightarrow> bool" where
  "str_contains needle [] = (needle = [])"
| "str_contains needle (c # cs) =
     (take (length needle) (c # cs) = needle \<or> str_contains needle cs)"

text \<open>
  \<^verbatim>\<open>os.path.basename(file_table.get(entry['file'], {}).get('name', ''))\<close>: both lookups
  default to the empty string.
\<close>

definition resolve_name :: "(int \<rightharpoonup> FileTableEntry) \<Rightarrow> LineTableRow \<Rightarrow> string" where
  "resolve_name file_table entry =
     basename (case file_table (row_file entry) of
                 None \<Rightarrow> ''''
               | Some e \<Rightarrow> (case ft_name e of None \<Rightarrow> '''' | Some n \<Rightarrow> n))"

text \<open>
  The accumulator \<^verbatim>\<open>line_numbers_by_file\<close> maps a file name to a set of lines and keeps
  insertion order. \<open>add_line\<close> creates the empty set for a new name at the end and adds
  the line to the name's set.
\<close>

fun add_line :: "string \<Rightarrow> int \<Rightarrow> (string \<times> int set) list \<Rightarrow> (string \<times> int set) list" where
  "add_line f l [] = [(f, {l})]"
| "add_line f l ((g, s) # rest) =
     (if g = f then (g, insert l s) # rest else (g, s) # add_line f l rest)"

definition by_file_step ::
  "(int \<rightharpoonup> FileTableEntry) \<Rightarrow> (string \<times> int set) list \<Rightarrow> LineTableRow
     \<Rightarrow> (string \<times> int set) list" where
  "by_file_step file_table acc entry =
     (let file_name = resolve_name file_table entry in
      if file_name \<noteq> [] \<and> str_contains ''is_stmt'' (row_flags entry)
      then add_line file_name (row_line entry) acc
      else acc)"

text \<open>The returned dictionary holds, for every name, \<^verbatim>\<open>sorted(lines)\<close>.\<close>

definition get_line_numbers_by_file ::
  "(int \<rightharpoonup> FileTableEntry) \<Rightarrow> LineTableRow list \<Rightarrow> (string \<times> int list) list" where
  "get_line_numbers_by_file file_table line_info =
     map (\<lambda>(file, lines). (file, sorted_list_of_set lines))
         (foldl (by_file_step file_table) [] line_info)"

text \<open>
  The set of lines that the rows of a dump select for one file name: the lines of the rows
  that resolve to this name and carry the marker.
\<close>

definition selected :: "(int \<rightharpoonup> FileTableEntry) \<Rightarrow> LineTableRow list \<Rightarrow> string \<Rightarrow> int set" where
  "selected ft rows f =
     row_line ` {r \<in> set rows. resolve_name ft r = f \<and> str_contains ''is_stmt'' (row_flags r)}"

text \<open>A small dump: index 1 is \<^verbatim>\<open>a.c\<close>, no other index is declared.\<close>

definition demo_row :: "int \<Rightarrow> int \<Rightarrow> int \<Rightarrow> string \<Rightarrow> LineTableRow" where
  "demo_row a l f fl = \<lparr> row_address = a, row_line = l, row_column = 0, row_file = f,
      row_isa = 0, row_discriminator = 0, row_flags = fl \<rparr>"

definition demo_file_table :: "int \<rightharpoonup> FileTableEntry" where
  "demo_file_table = [1 \<mapsto> \<lparr> ft_name = Some ''a.c'', ft_dir_index = Some 0 \<rparr>]"

section \<open>Breakpoint verification: \<^verbatim>\<open>verify_line_nums\<close> and \<^verbatim>\<open>get_line_nums\<close>\<close>

text \<open>
  Both \<^verbatim>\<open>utils.py\<close> (class \<^verbatim>\<open>LineNumberExtractor\<close>, the one \<^verbatim>\<open>binary_generator.py\<close> imports)
  and \<^verbatim>\<open>get_line_nums.py\<close> (classes \<^verbatim>\<open>LineNumberVerifier\<close> and \<^verbatim>\<open>LineNumberExtractor\<close>) define
  \<^verbatim>\<open>verify_line_nums\<close> and \<^verbatim>\<open>get_line_nums\<close>. The definitions prefixed \<open>utils_\<close> embed the
  former, those prefixed \<open>standalone_\<close> the latter.

  A Python call either returns a value or raises; \<open>Raised\<close> carries the exception.
\<close>

datatype exn = RuntimeError string | UnboundLocalError string | DebuggerError | OSError string

datatype 'a outcome = Returned 'a | Raised exn

text \<open>
  The debugger is an external capability. One session (one \<^verbatim>\<open>SBDebugger.Create()\<close>) is
  described by what its calls answer:
  \<^item> \<^verbatim>\<open>CreateTargetWithFileAndArch\<close> gives a valid target, an invalid one, or raises;
  \<^item> \<^verbatim>\<open>BreakpointCreateByLocation(source_file, line)\<close> gives a breakpoint that is valid or not;
  \<^item> \<^verbatim>\<open>LaunchSimple\<close> gives a valid process in some state \<open>'p\<close>, or an invalid one;
  \<^item> \<open>is_stopped\<close> is \<^verbatim>\<open>process.GetState() == eStateStopped\<close>;
  \<^item> \<open>stop_event\<close> is what one iteration of the loop reads from a stopped process: a stop
    at a breakpoint, with the line of frame 0 and the hit count of every breakpoint (named by
    the position of its line in the candidate list), a stop for another reason, or a call
    that raises;
  \<^item> \<^verbatim>\<open>process.Continue()\<close> moves the process to its next state;
  \<^item> \<open>process_IsValid\<close> is \<^verbatim>\<open>process.IsValid()\<close> as the cleanup reads it.
  The releases a session performs are recorded in order.
\<close>

datatype target_result = ValidTarget | InvalidTarget | TargetError

datatype 'p launch_result = Launched 'p | LaunchFailed

datatype stop_event = BreakpointStop int "nat \<Rightarrow> nat" | OtherStop | Fault

datatype release = Kill | DestroyProcess | DeleteAllBreakpoints | DeleteTarget | DestroyDebugger

record 'p Session =
  CreateTargetWithFileAndArch :: "path \<Rightarrow> target_result"
  BreakpointCreateByLocation :: "string \<Rightarrow> int \<Rightarrow> bool"
  LaunchSimple :: "'p launch_result"
  is_stopped :: "'p \<Rightarrow> bool"
  stop_event :: "'p \<Rightarrow> stop_event"
  Continue :: "'p \<Rightarrow> 'p"
  process_IsValid :: "'p \<Rightarrow> bool"

text \<open>The first loop: one breakpoint per candidate line, the invalid ones dropped.\<close>

definition create_breakpoints :: "'p Session \<Rightarrow> string \<Rightarrow> int list \<Rightarrow> (nat \<times> int) list" where
  "create_breakpoints S source_file line_nums =
     filter (\<lambda>(bp, line_number). BreakpointCreateByLocation S source_file line_number)
            (zip [0..<length line_nums] line_nums)"

text \<open>
  The inner \<^verbatim>\<open>for bp, line_number in breakpoints\<close> with its \<^verbatim>\<open>break\<close>: the first
  breakpoint with a positive hit count whose line is the line of frame 0 adds its line.
\<close>

definition record_hit :: "(nat \<times> int) list \<Rightarrow> int \<Rightarrow> (nat \<Rightarrow> nat) \<Rightarrow> int set \<Rightarrow> int set" where
  "record_hit breakpoints line_number_hit hit_count verified_line_nums =
     (case find (\<lambda>(bp, line_number). hit_count bp > 0 \<and> line_number = line_number_hit)
                breakpoints of
        None \<Rightarrow> verified_line_nums
      | Some (bp, line_number) \<Rightarrow> insert line_number verified_line_nums)"

text \<open>
  The loop \<^verbatim>\<open>while process.GetState() == eStateStopped\<close>. Nothing bounds the number of stops,
  so the loop is a partial function: \<open>None\<close> is a run that never leaves the loop. A returned
  pair holds the verified set, or the exception, and the state the process is left in.
\<close>

partial_function (option) stop_continue_loop ::
  "'p Session \<Rightarrow> (nat \<times> int) list \<Rightarrow> 'p \<Rightarrow> int set \<Rightarrow> (int set outcome \<times> 'p) option" where
  "stop_continue_loop S breakpoints process verified_line_nums =
     (if is_stopped S process then
        (case stop_event S process of
           Fault \<Rightarrow> Some (Raised DebuggerError, process)
         | OtherStop \<Rightarrow>
             stop_continue_loop S breakpoints (Continue S process) verified_line_nums
         | BreakpointStop line_number_hit hit_count \<Rightarrow>
             stop_continue_loop S breakpoints (Continue S process)
               (record_hit breakpoints line_number_hit hit_count verified_line_nums))
      else Some (Returned verified_line_nums, process))"


text \<open>
  \<^verbatim>\<open>utils.py\<close>: the body of \<^verbatim>\<open>verify_line_nums\<close> runs inside the context manager
  \<^verbatim>\<open>_lldb_session\<close>. The manager raises \<^verbatim>\<open>RuntimeError\<close> for an invalid target, and its
  \<^verbatim>\<open>finally\<close> block tests its own local \<^verbatim>\<open>process\<close>, which is assigned \<^verbatim>\<open>None\<close> once and
  never again (the launched process is a local of \<^verbatim>\<open>verify_line_nums\<close>): the kill branch is
  never taken. With a valid target it deletes the breakpoints and the target; it always
  destroys the debugger. \<^verbatim>\<open>verify_line_nums\<close> has no \<^verbatim>\<open>except\<close> clause.
\<close>

definition utils_release :: "release list" where
  "utils_release = [DeleteAllBreakpoints, DeleteTarget, DestroyDebugger]"

definition utils_verify_line_nums ::
  "'p Session \<Rightarrow> string \<Rightarrow> path \<Rightarrow> int list \<Rightarrow> (int list option outcome \<times> release list) option" where
  "utils_verify_line_nums S source_file binary_file line_nums =
     (case CreateTargetWithFileAndArch S binary_file of
        TargetError \<Rightarrow> Some (Raised DebuggerError, [DestroyDebugger])
      | InvalidTarget \<Rightarrow> Some (Raised (RuntimeError ''Invalid target''), [DestroyDebugger])
      | ValidTarget \<Rightarrow>
          (let breakpoints = create_breakpoints S source_file line_nums in
           case LaunchSimple S of
             LaunchFailed \<Rightarrow> Some (Returned None, utils_release)
           | Launched process \<Rightarrow>
               (case stop_continue_loop S breakpoints process {} of
                  None \<Rightarrow> None
                | Some (Raised e, process') \<Rightarrow> Some (Raised e, utils_release)
                | Some (Returned verified_line_nums, process') \<Rightarrow>
                    Some (Returned (Some (sorted_list_of_set verified_line_nums)),
                          utils_release))))"


text \<open>
  \<^verbatim>\<open>get_line_nums.py\<close>: \<^verbatim>\<open>try\<close> / \<^verbatim>\<open>except Exception: return None\<close> /
  \<^verbatim>\<open>finally: self._cleanup(debugger, target, process)\<close>. The arguments of that call are
  evaluated first: when the target could not be created \<^verbatim>\<open>target\<close> is unbound, and when the
  target is invalid \<^verbatim>\<open>process\<close> is unbound, so the \<^verbatim>\<open>finally\<close> block raises
  \<^verbatim>\<open>UnboundLocalError\<close> in place of the pending \<^verbatim>\<open>return None\<close> and \<^verbatim>\<open>_cleanup\<close> does not run.
\<close>

definition standalone_cleanup :: "'p Session \<Rightarrow> 'p option \<Rightarrow> release list" where
  "standalone_cleanup S process =
     (case process of
        None \<Rightarrow> []
      | Some p \<Rightarrow> if process_IsValid S p then [Kill, DestroyProcess] else [])
     @ [DeleteAllBreakpoints, DeleteTarget] @ [DestroyDebugger]"

definition standalone_verify_line_nums ::
  "'p Session \<Rightarrow> string \<Rightarrow> path \<Rightarrow> int list \<Rightarrow> (int list option outcome \<times> release list) option" where
  "standalone_verify_line_nums S source_file binary_file line_nums =
     (case CreateTargetWithFileAndArch S binary_file of
        TargetError \<Rightarrow> Some (Raised (UnboundLocalError ''target''), [])
      | InvalidTarget \<Rightarrow> Some (Raised (UnboundLocalError ''process''), [])
      | ValidTarget \<Rightarrow>
          (let breakpoints = create_breakpoints S source_file line_nums in
           case LaunchSimple S of
             LaunchFailed \<Rightarrow> Some (Returned None, standalone_cleanup S None)
           | Launched process \<Rightarrow>
               (case stop_continue_loop S breakpoints process {} of
                  None \<Rightarrow> None
                | Some (Raised e, process') \<Rightarrow>
                    Some (Returned None, standalone_cleanup S (Some process'))
                | Some (Returned verified_line_nums, process') \<Rightarrow>
                    Some (Returned (Some (sorted_list_of_set verified_line_nums)),
                          standalone_cleanup S (Some process')))))"

text \<open>
  \<^verbatim>\<open>get_line_nums\<close> (the same body in both modules, apart from the verifier it calls).
  \<^verbatim>\<open>verified_line_numbers[source_file] = verified_lines\<close> is a dictionary store;
  \<^verbatim>\<open>if verified_lines:\<close> is false for \<^verbatim>\<open>None\<close> and for the empty list.
\<close>

fun dict_set :: "'k \<Rightarrow> 'v \<Rightarrow> ('k \<times> 'v) list \<Rightarrow> ('k \<times> 'v) list" where
  "dict_set k v [] = [(k, v)]"
| "dict_set k v ((k', v') # rest) =
     (if k' = k then (k, v) # rest else (k', v') # dict_set k v rest)"

definition truthy_lines :: "int list option \<Rightarrow> bool" where
  "truthy_lines verified_lines = (case verified_lines of None \<Rightarrow> False | Some ls \<Rightarrow> ls \<noteq> [])"

type_synonym 'r verify = "string \<Rightarrow> int list \<Rightarrow> (int list option outcome \<times> 'r) option"

fun verify_files ::
  "'r verify \<Rightarrow> string list \<Rightarrow> (string \<times> int list) list \<Rightarrow> (string \<times> int list) list
     \<Rightarrow> (string \<times> int list) list outcome option" where
  "verify_files verify source_files [] verified_line_numbers = Some (Returned verified_line_numbers)"
| "verify_files verify source_files ((source_file, line_nums) # rest) verified_line_numbers =
     (if source_file \<in> set source_files then
        (case verify source_file line_nums of
           None \<Rightarrow> None
         | Some (Raised e, _) \<Rightarrow> Some (Raised e)
         | Some (Returned verified_lines, _) \<Rightarrow>
             if truthy_lines verified_lines
             then verify_files verify source_files rest
                    (dict_set source_file (the verified_lines) verified_line_numbers)
             else verify_files verify source_files rest verified_line_numbers)
      else verify_files verify source_files rest verified_line_numbers)"

text \<open>
  The two dumps \<^verbatim>\<open>get_line_nums\<close> reads are results of external commands scanned with
  regular expressions; the scans are not embedded, their results are parameters:
  \<open>get_source_files\<close> is the list of compile units (or the exception of a failed dump) and
  \<open>parse_debug_line\<close> is \<^verbatim>\<open>parse_debug_line(run_dwarfdump(binary_file))\<close>.
\<close>

record Dwarfdump =
  get_source_files :: "path \<Rightarrow> string list outcome"
  parse_debug_line :: "path \<Rightarrow> ((int \<rightharpoonup> FileTableEntry) \<times> LineTableRow list) outcome"

text \<open>
  The body is wrapped in \<^verbatim>\<open>try\<close> / \<^verbatim>\<open>except Exception: return {}\<close>. The debugger is
  given as the session that \<^verbatim>\<open>SBDebugger.Create()\<close> yields for each source file.
\<close>

definition get_line_nums_body ::
  "'r verify \<Rightarrow> Dwarfdump \<Rightarrow> path \<Rightarrow> (string \<times> int list) list option" where
  "get_line_nums_body verify dwarfdump binary_file =
     (case get_source_files dwarfdump binary_file of
        Raised e \<Rightarrow> Some []
      | Returned source_files \<Rightarrow>
          (case parse_debug_line dwarfdump binary_file of
             Raised e \<Rightarrow> Some []
           | Returned (file_table, line_info) \<Rightarrow>
               (case verify_files verify source_files
                       (get_line_numbers_by_file file_table line_info) [] of
                  None \<Rightarrow> None
                | Some (Raised e) \<Rightarrow> Some []
                | Some (Returned verified_line_numbers) \<Rightarrow> Some verified_line_numbers)))"

definition utils_get_line_nums ::
  "(string \<Rightarrow> 'p Session) \<Rightarrow> Dwarfdump \<Rightarrow> path \<Rightarrow> (string \<times> int list) list option" where
  "utils_get_line_nums lldb dwarfdump binary_file =
     get_line_nums_body
       (\<lambda>source_file line_nums.
          utils_verify_line_nums (lldb source_file) source_file binary_file line_nums)
       dwarfdump binary_file"

definition standalone_get_line_nums ::
  "(string \<Rightarrow> 'p Session) \<Rightarrow> Dwarfdump \<Rightarrow> path \<Rightarrow> (string \<times> int list) list option" where
  "standalone_get_line_nums lldb dwarfdump binary_file =
     get_line_nums_body
       (\<lambda>source_file line_nums.
          standalone_verify_line_nums (lldb source_file) source_file binary_file line_nums)
       dwarfdump binary_file"

text \<open>
  What the loop of \<^verbatim>\<open>get_line_nums\<close> can observe of one verification: that it did not
  return, the exception, or the list it stores (the empty list standing for "stores nothing").
\<close>

definition seen_by_loop :: "(int list option outcome \<times> 'r) option \<Rightarrow> int list outcome option" where
  "seen_by_loop result =
     (case result of
        None \<Rightarrow> None
      | Some (Raised e, log) \<Rightarrow> Some (Raised e)
      | Some (Returned verified_lines, log) \<Rightarrow>
          Some (Returned (if truthy_lines verified_lines then the verified_lines else [])))"

text \<open>
  Sessions used as concrete inputs. \<open>straight_line\<close> is a program that stops at the
  breakpoints of lines 5 and 6 and then exits; the variants change one answer each.
\<close>

definition straight_line :: "nat Session" where
  "straight_line =
     \<lparr> CreateTargetWithFileAndArch = (\<lambda>_. ValidTarget),
       BreakpointCreateByLocation = (\<lambda>_ _. True),
       LaunchSimple = Launched 0,
       is_stopped = (\<lambda>p. p < 2),
       stop_event = (\<lambda>p. BreakpointStop (if p = 0 then 5 else 6)
                                         (\<lambda>bp. if bp \<le> p then 1 else 0)),
       Continue = Suc,
       process_IsValid = (\<lambda>_. True) \<rparr>"

definition faulting :: "nat Session" where
  "faulting = straight_line \<lparr> stop_event := (\<lambda>p. Fault) \<rparr>"

definition launch_fails :: "nat Session" where
  "launch_fails = straight_line \<lparr> LaunchSimple := LaunchFailed \<rparr>"

definition invalid_target :: "nat Session" where
  "invalid_target = straight_line \<lparr> CreateTargetWithFileAndArch := (\<lambda>_. InvalidTarget) \<rparr>"

definition two_file_dump :: Dwarfdump where
  "two_file_dump =
     \<lparr> get_source_files = (\<lambda>_. Returned [''a.c'', ''b.c'']),
       parse_debug_line = (\<lambda>_. Returned
         ([1 \<mapsto> \<lparr> ft_name = Some ''a.c'', ft_dir_index = Some 0 \<rparr>,
           2 \<mapsto> \<lparr> ft_name = Some ''b.c'', ft_dir_index = Some 0 \<rparr>],
          [demo_row 4096 5 1 ''is_stmt'', demo_row 4100 6 1 ''is_stmt'',
           demo_row 4104 9 1 ''is_stmt'', demo_row 4108 3 2 ''is_stmt''])) \<rparr>"

section \<open>The file system and the compiler\<close>

text \<open>
  The disk is a list of entries, a path with a regular file (and its bytes) or a directory;
  the first entry of a path is the one in force. \<open>unlink\<close> raises on a directory, as
  \<^verbatim>\<open>Path.unlink\<close> does. \<open>iterdir\<close> lists the entries directly below a directory.
\<close>

datatype node = File string | Dir

type_synonym FS = "(path \<times> node) list"

definition lookup :: "FS \<Rightarrow> path \<Rightarrow> node option" where
  "lookup fs p = map_of fs p"

definition remove_entry :: "path \<Rightarrow> FS \<Rightarrow> FS" where
  "remove_entry p fs = filter (\<lambda>(q, n). q \<noteq> p) fs"

definition write_file :: "path \<Rightarrow> string \<Rightarrow> FS \<Rightarrow> FS" where
  "write_file p bytes fs = (p, File bytes) # remove_entry p fs"

text \<open>\<^verbatim>\<open>Path.parent\<close>: what precedes the last slash, or \<^verbatim>\<open>.\<close> for a bare name.\<close>

definition parent :: "path \<Rightarrow> path" where
  "parent p =
     (if CHR ''/'' \<in> set p then rev (tl (dropWhile (\<lambda>c. c \<noteq> CHR ''/'') (rev p))) else ''.'')"

definition iterdir :: "FS \<Rightarrow> path \<Rightarrow> path list" where
  "iterdir fs d = map fst (filter (\<lambda>(q, n). parent q = d \<and> q \<noteq> d) fs)"

definition path_exists :: "FS \<Rightarrow> path \<Rightarrow> bool" where
  "path_exists fs p = (lookup fs p \<noteq> None)"

definition unlink :: "path \<Rightarrow> FS \<Rightarrow> exn + FS" where
  "unlink p fs =
     (case lookup fs p of
        None \<Rightarrow> Inl (OSError ''FileNotFoundError'')
      | Some Dir \<Rightarrow> Inl (OSError ''IsADirectoryError'')
      | Some (File bytes) \<Rightarrow> Inr (remove_entry p fs))"

text \<open>
  The compiler and the digest are external. \<^verbatim>\<open>subprocess.run(cmd, check=True)\<close> either
  exits with status 0, having written the output file, or exits with another status
  (\<^verbatim>\<open>CalledProcessError\<close>), or cannot be started (an \<^verbatim>\<open>OSError\<close>, which
  \<^verbatim>\<open>generate_binary\<close> does not catch). \<open>hexdigest\<close> is
  \<^verbatim>\<open>hashlib.new(algorithm, bytes).hexdigest()\<close>; nothing is assumed of it.
\<close>

datatype compile_result = Exit0 string | NonZeroExit | SpawnFailure

record Toolchain =
  run_compiler :: "string list \<Rightarrow> compile_result"
  hexdigest :: "string \<Rightarrow> string \<Rightarrow> string"

section \<open>\<^verbatim>\<open>Binary\<close>: construction, \<^verbatim>\<open>generate_binary\<close>, \<^verbatim>\<open>compute_hash\<close>, \<^verbatim>\<open>cleanup\<close>\<close>

text \<open>
  \<^verbatim>\<open>Path.stem\<close>: the final component without its last suffix; a name with no dot, with its
  only dot in front, or ending in a dot is its own stem.
\<close>

definition stem :: "path \<Rightarrow> string" where
  "stem p =
     (let n = basename p;
          i = length n - length (takeWhile (\<lambda>c. c \<noteq> CHR ''.'') (rev n)) - 1
      in if CHR ''.'' \<in> set n \<and> 0 < i \<and> i < length n - 1 then take i n else n)"

text \<open>\<^verbatim>\<open>Binary.__init__\<close>.\<close>

definition Binary_init ::
  "CompilerConfig \<Rightarrow> path \<Rightarrow> path \<Rightarrow> string \<Rightarrow> string \<Rightarrow> Binary" where
  "Binary_init compiler_config src out_dir opt_level dbg_level =
     (let fname = stem src @ ''_O'' @ opt_level @ ''_D'' @ dbg_level @ ''.out'' in
      \<lparr> bin_compiler_path = compiler_path compiler_config,
        source_path = src,
        optimization_level = opt_level,
        debug_level = dbg_level,
        file_name = fname,
        file_path = out_dir @ ''/'' @ fname,
        hash_value = None,
        line_numbers = [],
        hash_algorithm = ''sha256'' \<rparr>)"

definition compile_cmd :: "Binary \<Rightarrow> string list" where
  "compile_cmd b =
     [bin_compiler_path b, source_path b, ''-I/usr/local/include'',
      ''-O'' @ optimization_level b, ''-g'' @ debug_level b, ''-o'', file_path b]"

text \<open>\<^verbatim>\<open>compute_hash\<close> opens the output file and hashes its bytes.\<close>

definition compute_hash :: "Toolchain \<Rightarrow> Binary \<Rightarrow> FS \<Rightarrow> exn + Binary" where
  "compute_hash T b fs =
     (case lookup fs (file_path b) of
        Some (File bytes) \<Rightarrow> Inr (b \<lparr> hash_value := Some (hexdigest T (hash_algorithm b) bytes) \<rparr>)
      | Some Dir \<Rightarrow> Inl (OSError ''IsADirectoryError'')
      | None \<Rightarrow> Inl (OSError ''FileNotFoundError''))"

text \<open>
  \<^verbatim>\<open>generate_binary\<close> returns \<^verbatim>\<open>True\<close> after a successful compilation and hash,
  \<^verbatim>\<open>False\<close> after \<^verbatim>\<open>CalledProcessError\<close>; any other exception propagates.
\<close>

definition generate_binary :: "Toolchain \<Rightarrow> Binary \<Rightarrow> FS \<Rightarrow> (bool outcome \<times> Binary \<times> FS)" where
  "generate_binary T b fs =
     (case run_compiler T (compile_cmd b) of
        NonZeroExit \<Rightarrow> (Returned False, b, fs)
      | SpawnFailure \<Rightarrow> (Raised (OSError ''FileNotFoundError''), b, fs)
      | Exit0 bytes \<Rightarrow>
          (let fs' = write_file (file_path b) bytes fs in
           case compute_hash T b fs' of
             Inl e \<Rightarrow> (Raised e, b, fs')
           | Inr b' \<Rightarrow> (Returned True, b', fs')))"

text \<open>
  \<^verbatim>\<open>Binary.cleanup\<close>: unlink the artifact if it exists, clear the line-number map.
\<close>

definition Binary_cleanup :: "Binary \<Rightarrow> FS \<Rightarrow> exn option \<times> Binary \<times> FS" where
  "Binary_cleanup b fs =
     (if path_exists fs (file_path b) then
        (case unlink (file_path b) fs of
           Inl e \<Rightarrow> (Some e, b, fs)
         | Inr fs' \<Rightarrow> (None, b \<lparr> line_numbers := [] \<rparr>, fs'))
      else (None, b \<lparr> line_numbers := [] \<rparr>, fs))"

section \<open>\<^verbatim>\<open>BinaryAnalyzer\<close>: \<^verbatim>\<open>generate_variants\<close> and \<^verbatim>\<open>cleanup\<close>\<close>

text \<open>
  The analyzer, with the fields that \<^verbatim>\<open>generate_variants\<close> and \<^verbatim>\<open>cleanup\<close> read or write.
  \<open>generate_binary_for\<close> is the method \<^verbatim>\<open>_generate_binary\<close>.
\<close>

record BinaryAnalyzer =
  compiler_config :: CompilerConfig
  analyzer_source_path :: path
  output_dir :: path
  binaries :: "Binary list"

definition BinaryAnalyzer_init :: "CompilerConfig \<Rightarrow> path \<Rightarrow> path \<Rightarrow> BinaryAnalyzer" where
  "BinaryAnalyzer_init cfg src out_dir =
     \<lparr> compiler_config = cfg, analyzer_source_path = src, output_dir = out_dir, binaries = [] \<rparr>"

definition generate_binary_for ::
  "Toolchain \<Rightarrow> BinaryAnalyzer \<Rightarrow> string \<Rightarrow> string \<Rightarrow> FS \<Rightarrow> (Binary option outcome \<times> FS)" where
  "generate_binary_for T a opt_level dbg_level fs =
     (let binary = Binary_init (compiler_config a) (analyzer_source_path a) (output_dir a)
                     opt_level dbg_level in
      case generate_binary T binary fs of
        (Returned True, b', fs') \<Rightarrow> (Returned (Some b'), fs')
      | (Returned False, b', fs') \<Rightarrow> (Returned None, fs')
      | (Raised e, b', fs') \<Rightarrow> (Raised e, fs'))"

text \<open>
  The state of one sweep: the list \<^verbatim>\<open>self.binaries\<close>, the local set \<^verbatim>\<open>file_hashes\<close>
  and the disk. \<open>variant_step\<close> is the body of the inner loop; the two loops follow
  \<^verbatim>\<open>for opt_level in ...: for debug_level in ...:\<close> and stop at the first exception.
  The body has no \<^verbatim>\<open>else\<close> branch: a binary whose hash is already in the set is dropped
  and nothing else is done.
\<close>

record Sweep =
  retained :: "Binary list"
  file_hashes :: "string option set"
  disk :: FS

definition variant_step ::
  "Toolchain \<Rightarrow> BinaryAnalyzer \<Rightarrow> string \<Rightarrow> string \<Rightarrow> Sweep \<Rightarrow> exn option \<times> Sweep" where
  "variant_step T a opt_level dbg_level st =
     (case generate_binary_for T a opt_level dbg_level (disk st) of
        (Raised e, fs') \<Rightarrow> (Some e, st \<lparr> disk := fs' \<rparr>)
      | (Returned None, fs') \<Rightarrow> (None, st \<lparr> disk := fs' \<rparr>)
      | (Returned (Some binary), fs') \<Rightarrow>
          if hash_value binary \<notin> file_hashes st
          then (None, \<lparr> retained = retained st @ [binary],
                       file_hashes = insert (hash_value binary) (file_hashes st),
                       disk = fs' \<rparr>)
          else (None, st \<lparr> disk := fs' \<rparr>))"

fun debug_level_loop ::
  "Toolchain \<Rightarrow> BinaryAnalyzer \<Rightarrow> string \<Rightarrow> string list \<Rightarrow> Sweep \<Rightarrow> exn option \<times> Sweep" where
  "debug_level_loop T a opt_level [] st = (None, st)"
| "debug_level_loop T a opt_level (dbg_level # rest) st =
     (case variant_step T a opt_level dbg_level st of
        (Some e, st') \<Rightarrow> (Some e, st')
      | (None, st') \<Rightarrow> debug_level_loop T a opt_level rest st')"

fun opt_level_loop ::
  "Toolchain \<Rightarrow> BinaryAnalyzer \<Rightarrow> string list \<Rightarrow> Sweep \<Rightarrow> exn option \<times> Sweep" where
  "opt_level_loop T a [] st = (None, st)"
| "opt_level_loop T a (opt_level # rest) st =
     (case debug_level_loop T a opt_level (dbg_levels (compiler_config a)) st of
        (Some e, st') \<Rightarrow> (Some e, st')
      | (None, st') \<Rightarrow> opt_level_loop T a rest st')"

definition generate_variants ::
  "Toolchain \<Rightarrow> BinaryAnalyzer \<Rightarrow> FS \<Rightarrow> exn option \<times> BinaryAnalyzer \<times> FS" where
  "generate_variants T a fs =
     (case opt_level_loop T a (opt_levels (compiler_config a))
             \<lparr> retained = binaries a, file_hashes = {}, disk = fs \<rparr> of
        (err, st) \<Rightarrow> (err, a \<lparr> binaries := retained st \<rparr>, disk st))"

text \<open>
  \<^verbatim>\<open>BinaryAnalyzer.cleanup\<close>: clean every binary up, clear the list, then remove the output
  directory if it exists and \<^verbatim>\<open>iterdir()\<close> yields nothing (\<^verbatim>\<open>iterdir\<close> raises when the
  path is a regular file).
\<close>

fun cleanup_loop :: "Binary list \<Rightarrow> FS \<Rightarrow> exn option \<times> Binary list \<times> FS" where
  "cleanup_loop [] fs = (None, [], fs)"
| "cleanup_loop (b # rest) fs =
     (case Binary_cleanup b fs of
        (Some e, b', fs') \<Rightarrow> (Some e, b' # rest, fs')
      | (None, b', fs') \<Rightarrow>
          (case cleanup_loop rest fs' of
             (err, rest', fs'') \<Rightarrow> (err, b' # rest', fs'')))"

definition BinaryAnalyzer_cleanup ::
  "BinaryAnalyzer \<Rightarrow> FS \<Rightarrow> exn option \<times> BinaryAnalyzer \<times> FS" where
  "BinaryAnalyzer_cleanup a fs =
     (case cleanup_loop (binaries a) fs of
        (Some e, bs', fs') \<Rightarrow> (Some e, a \<lparr> binaries := bs' \<rparr>, fs')
      | (None, bs', fs') \<Rightarrow>
          (case lookup fs' (output_dir a) of
             None \<Rightarrow> (None, a \<lparr> binaries := [] \<rparr>, fs')
           | Some (File bytes) \<Rightarrow>
               (Some (OSError ''NotADirectoryError''), a \<lparr> binaries := [] \<rparr>, fs')
           | Some Dir \<Rightarrow>
               if iterdir fs' (output_dir a) = []
               then (None, a \<lparr> binaries := [] \<rparr>, remove_entry (output_dir a) fs')
               else (None, a \<lparr> binaries := [] \<rparr>, fs')))"

text \<open>
  The invariant of the sweep: the hash set holds exactly the hashes of the retained
  binaries, and no two of these are equal.
\<close>

definition sweep_inv :: "Sweep \<Rightarrow> bool" where
  "sweep_inv st \<longleftrightarrow>
     file_hashes st = hash_value ` set (retained st) \<and> distinct (map hash_value (retained st))"

text \<open>
  A concrete sweep: four optimisation levels, one debug level; \<^verbatim>\<open>-O0\<close> and \<^verbatim>\<open>-O1\<close> give
  the same bytes, \<^verbatim>\<open>-O2\<close> gives other bytes, \<^verbatim>\<open>-O3\<close> fails to compile.
\<close>

definition demo_toolchain :: Toolchain where
  "demo_toolchain =
     \<lparr> run_compiler = (\<lambda>cmd. if ''-O3'' \<in> set cmd then NonZeroExit
                              else if ''-O2'' \<in> set cmd then Exit0 ''fast'' else Exit0 ''plain''),
       hexdigest = (\<lambda>alg bytes. alg @ '':'' @ bytes) \<rparr>"

definition demo_analyzer :: BinaryAnalyzer where
  "demo_analyzer =
     BinaryAnalyzer_init
       \<lparr> compiler_path = ''clang'', opt_levels = [''0'', ''1'', ''2'', ''3''], dbg_levels = [''1''] \<rparr>
       ''src/a.c'' ''out''"

definition demo_fs :: FS where
  "demo_fs = [(''out'', Dir), (''src'', Dir), (''src/a.c'', File ''int main(){}'')]"

definition demo_binary_for :: "string \<Rightarrow> string \<Rightarrow> Binary" where
  "demo_binary_for opt bytes =
     \<lparr> bin_compiler_path = ''clang'', source_path = ''src/a.c'',
       optimization_level = opt, debug_level = ''1'',
       file_name = ''a_O'' @ opt @ ''_D1.out'', file_path = ''out/a_O'' @ opt @ ''_D1.out'',
       hash_value = Some (''sha256:'' @ bytes), line_numbers = [],
       hash_algorithm = ''sha256'' \<rparr>"

definition demo_fs_after :: FS where
  "demo_fs_after =
     [(''out/a_O2_D1.out'', File ''fast''), (''out/a_O1_D1.out'', File ''plain''),
      (''out/a_O0_D1.out'', File ''plain''), (''out'', Dir), (''src'', Dir),
      (''src/a.c'', File ''int main(){}'')]"

definition demo_retained :: BinaryAnalyzer where
  "demo_retained =
     demo_analyzer \<lparr> binaries := [demo_binary_for ''0'' ''plain'', demo_binary_for ''2'' ''fast''] \<rparr>"

definition demo_sweep :: Sweep where
  "demo_sweep =
     \<lparr> retained = [demo_binary_for ''0'' ''plain''],
       file_hashes = {Some ''sha256:plain''},
       disk = write_file ''out/a_O0_D1.out'' ''plain'' demo_fs \<rparr>"

section \<open>Theorems\<close>

subsection \<open>Issue detection\<close>

lemma concat_map_split:
  assumes "x \<in> set xs"
  shows "\<exists>pre post. concat (map f xs) = pre @ f x @ post"
proof -
  from assms obtain ys zs where "xs = ys @ x # zs" by (auto dest: split_list)
  then have "concat (map f xs) = concat (map f ys) @ f x @ concat (map f zs)" by simp
  then show ?thesis by blast
qed

text \<open>
  Every value the detector examines contributes its own issues as one contiguous block of
  the list returned for the binary.
\<close>

lemma find_issues_type1_2_block:
  assumes files: "(source_file, lines) \<in> set (line_numbers binary)"
    and lines: "line \<in> set lines"
    and dv: "dv \<in> set (get_debug_values source_file (file_path binary) line)"
  shows "\<exists>pre post. find_issues_type1_2 get_debug_values binary
           = pre @ issues_of_value binary source_file line dv @ post"
proof -
  let ?per_file = "\<lambda>(source_file, lines).
         concat (map (issues_of_line get_debug_values binary source_file) lines)"
  let ?lines_block = "concat (map (issues_of_line get_debug_values binary source_file) lines)"
  have "?per_file (source_file, lines) = ?lines_block" by simp
  with concat_map_split [OF files, of ?per_file]
  obtain p1 q1 where 1: "find_issues_type1_2 get_debug_values binary = p1 @ ?lines_block @ q1"
    unfolding find_issues_type1_2_def by auto
  obtain p2 q2 where 2: "?lines_block
      = p2 @ issues_of_line get_debug_values binary source_file line @ q2"
    using concat_map_split [OF lines, of "issues_of_line get_debug_values binary source_file"]
    by blast
  obtain p3 q3 where 3: "issues_of_line get_debug_values binary source_file line
      = p3 @ issues_of_value binary source_file line dv @ q3"
    unfolding issues_of_line_def
    using concat_map_split [OF dv, of "issues_of_value binary source_file line"] by blast
  have "find_issues_type1_2 get_debug_values binary
      = (p1 @ p2 @ p3) @ issues_of_value binary source_file line dv @ (q3 @ q2 @ q1)"
    by (simp add: 1 2 3)
  then show ?thesis by blast
qed

text \<open>
  C6. For a debug value examined by the detector (a value returned by the extraction for a
  line of a file of the binary's line-number map) that carries a non-empty error message:
  if it is pointer-typed, an issue for it is in the list returned for the binary, whether or
  not the error is a known one; if it is not pointer-typed and the error is a known one, the
  value appends no issue at all.
\<close>

theorem pointer_error_recorded_known_scalar_not:
  assumes "(source_file, lines) \<in> set (line_numbers binary)"
    and "line \<in> set lines"
    and "dv \<in> set (get_debug_values source_file (file_path binary) line)"
    and "truthy (error_message dv)"
  shows "(is_pointer dv \<longrightarrow>
            make_issue binary source_file line dv
              \<in> set (find_issues_type1_2 get_debug_values binary))
       \<and> (\<not> is_pointer dv \<and> is_known_error dv \<longrightarrow>
            issues_of_value binary source_file line dv = [])"
proof (intro conjI impI)
  assume p: "is_pointer dv"
  from find_issues_type1_2_block [where get_debug_values = get_debug_values, OF assms(1-3)] obtain pre post where
    "find_issues_type1_2 get_debug_values binary
       = pre @ issues_of_value binary source_file line dv @ post" by blast
  moreover have "make_issue binary source_file line dv
       \<in> set (issues_of_value binary source_file line dv)"
    using p assms(4) by (simp add: issues_of_value_def)
  ultimately show "make_issue binary source_file line dv
       \<in> set (find_issues_type1_2 get_debug_values binary)" by simp
next
  assume "\<not> is_pointer dv \<and> is_known_error dv"
  then show "issues_of_value binary source_file line dv = []"
    by (simp add: issues_of_value_def)
qed

theorem pointer_error_recorded_known_scalar_not_witness:
  "make_issue demo_binary ''a.c'' 3 wild_pointer
     \<in> set (find_issues_type1_2 (\<lambda>_ _ _. [wild_pointer, wild_scalar]) demo_binary)
   \<and> issues_of_value demo_binary ''a.c'' 3 wild_scalar = []"
proof -
  let ?g = "\<lambda>(_::string) (_::path) (_::int). [wild_pointer, wild_scalar]"
  have f: "(''a.c'', [3]) \<in> set (line_numbers demo_binary)"
    by (simp add: demo_binary_def)
  have l: "(3::int) \<in> set [3]" by simp
  have dp: "wild_pointer \<in> set (?g ''a.c'' (file_path demo_binary) 3)" by simp
  have ds: "wild_scalar \<in> set (?g ''a.c'' (file_path demo_binary) 3)" by simp
  have tp: "truthy (error_message wild_pointer)"
    by (simp add: truthy_def wild_pointer_def)
  have ts: "truthy (error_message wild_scalar)"
    by (simp add: truthy_def wild_scalar_def)
  have pp: "is_pointer wild_pointer" by (simp add: wild_pointer_def)
  have ps: "\<not> is_pointer wild_scalar \<and> is_known_error wild_scalar"
    by (simp add: wild_scalar_def)
  from pointer_error_recorded_known_scalar_not [where get_debug_values = ?g, OF f l dp tp] pp
       pointer_error_recorded_known_scalar_not [where get_debug_values = ?g, OF f l ds ts] ps
  show ?thesis by blast
qed

text \<open>
  C7. The rules are separate statements and each one that matches appends: a pointer-typed
  value with a non-empty error message that is not a known error appends the same issue
  twice, and the two entries stand next to each other in the list returned for the binary.
\<close>

theorem unknown_pointer_error_recorded_twice:
  assumes "(source_file, lines) \<in> set (line_numbers binary)"
    and "line \<in> set lines"
    and "dv \<in> set (get_debug_values source_file (file_path binary) line)"
    and "is_pointer dv" and "truthy (error_message dv)" and "\<not> is_known_error dv"
  shows "issues_of_value binary source_file line dv
           = [make_issue binary source_file line dv, make_issue binary source_file line dv]
       \<and> (\<exists>pre post. find_issues_type1_2 get_debug_values binary
           = pre @ [make_issue binary source_file line dv,
                    make_issue binary source_file line dv] @ post)"
proof -
  have v: "issues_of_value binary source_file line dv
       = [make_issue binary source_file line dv, make_issue binary source_file line dv]"
    using assms(4-6) by (simp add: issues_of_value_def)
  from find_issues_type1_2_block [where get_debug_values = get_debug_values, OF assms(1-3)] v show ?thesis by simp
qed

theorem unknown_pointer_error_recorded_twice_witness:
  "find_issues_type1_2 (\<lambda>_ _ _. [unknown_pointer]) demo_binary
     = [make_issue demo_binary ''a.c'' 3 unknown_pointer,
        make_issue demo_binary ''a.c'' 3 unknown_pointer]"
proof -
  let ?g = "\<lambda>(_::string) (_::path) (_::int). [unknown_pointer]"
  have f: "(''a.c'', [3]) \<in> set (line_numbers demo_binary)"
    by (simp add: demo_binary_def)
  have l: "(3::int) \<in> set [3]" by simp
  have d: "unknown_pointer \<in> set (?g ''a.c'' (file_path demo_binary) 3)" by simp
  have p: "is_pointer unknown_pointer" by (simp add: unknown_pointer_def)
  have t: "truthy (error_message unknown_pointer)"
    by (simp add: truthy_def unknown_pointer_def)
  have k: "\<not> is_known_error unknown_pointer" by (simp add: unknown_pointer_def)
  have all: "find_issues_type1_2 ?g demo_binary
       = issues_of_value demo_binary ''a.c'' 3 unknown_pointer"
    by (simp add: find_issues_type1_2_def issues_of_line_def demo_binary_def)
  from unknown_pointer_error_recorded_twice [where get_debug_values = ?g, OF f l d p t k, THEN conjunct1] all
  show ?thesis by simp
qed

subsection \<open>The fold from line-table rows to candidate lines\<close>

lemma map_of_add_line:
  "map_of (add_line f l acc) =
     (map_of acc)(f \<mapsto> insert l (case map_of acc f of None \<Rightarrow> {} | Some s \<Rightarrow> s))"
  by (induction acc) (auto simp: fun_eq_iff)

lemma keys_add_line:
  "map fst (add_line f l acc) =
     (if f \<in> fst ` set acc then map fst acc else map fst acc @ [f])"
  by (induction acc) (force+)

lemma distinct_add_line:
  "distinct (map fst acc) \<Longrightarrow> distinct (map fst (add_line f l acc))"
  by (simp add: keys_add_line)

lemma selected_Nil: "selected ft [] f = {}"
  by (simp add: selected_def)

lemma selected_Cons:
  "selected ft (r # rows) f =
     (if resolve_name ft r = f \<and> str_contains ''is_stmt'' (row_flags r)
      then insert (row_line r) (selected ft rows f) else selected ft rows f)"
  by (auto simp: selected_def)

lemma map_of_by_file_step:
  "map_of (by_file_step ft acc r) f =
     (if resolve_name ft r = f \<and> f \<noteq> [] \<and> str_contains ''is_stmt'' (row_flags r)
      then Some (insert (row_line r) (case map_of acc f of None \<Rightarrow> {} | Some s \<Rightarrow> s))
      else map_of acc f)"
  by (auto simp: by_file_step_def Let_def map_of_add_line)

lemma map_of_foldl_step:
  "map_of (foldl (by_file_step ft) acc rows) f =
     (case map_of acc f of
        None \<Rightarrow> if f \<noteq> [] \<and> selected ft rows f \<noteq> {} then Some (selected ft rows f) else None
      | Some s \<Rightarrow> Some (s \<union> (if f \<noteq> [] then selected ft rows f else {})))"
proof (induction rows arbitrary: acc)
  case Nil
  then show ?case by (simp add: selected_Nil split: option.splits)
next
  case (Cons r rows)
  have "map_of (foldl (by_file_step ft) acc (r # rows)) f
      = map_of (foldl (by_file_step ft) (by_file_step ft acc r) rows) f" by simp
  also have "\<dots> = (case map_of (by_file_step ft acc r) f of
        None \<Rightarrow> if f \<noteq> [] \<and> selected ft rows f \<noteq> {} then Some (selected ft rows f) else None
      | Some s \<Rightarrow> Some (s \<union> (if f \<noteq> [] then selected ft rows f else {})))"
    by (rule Cons.IH)
  also have "\<dots> = (case map_of acc f of
        None \<Rightarrow> if f \<noteq> [] \<and> selected ft (r # rows) f \<noteq> {}
               then Some (selected ft (r # rows) f) else None
      | Some s \<Rightarrow> Some (s \<union> (if f \<noteq> [] then selected ft (r # rows) f else {})))"
    by (auto simp: map_of_by_file_step selected_Cons split: option.splits)
  finally show ?case .
qed

lemma distinct_foldl_step:
  "distinct (map fst acc) \<Longrightarrow> distinct (map fst (foldl (by_file_step ft) acc rows))"
  by (induction rows arbitrary: acc) (simp_all add: by_file_step_def Let_def distinct_add_line)

lemma map_of_get_line_numbers_by_file:
  "map_of (get_line_numbers_by_file ft rows) f =
     (if f \<noteq> [] \<and> selected ft rows f \<noteq> {}
      then Some (sorted_list_of_set (selected ft rows f)) else None)"
  unfolding get_line_numbers_by_file_def map_of_map
  by (simp add: map_of_foldl_step)

lemma step_dropped:
  "row_file r \<notin> dom ft \<Longrightarrow> by_file_step ft acc r = acc"
  by (auto simp: by_file_step_def resolve_name_def basename_def Let_def dom_def)


lemma foldl_step_dropped:
  assumes "row_file r \<notin> dom ft"
  shows "foldl (by_file_step ft) acc (xs @ r # ys) = foldl (by_file_step ft) acc (xs @ ys)"
  by (simp add: step_dropped [OF assms])

text \<open>
  C8. A row whose file index is not in the file table resolves to the empty name and can be
  removed from the dump without changing the result. The result maps a name to the sorted
  list of the set of lines of the rows that resolve to it and carry \<^verbatim>\<open>is_stmt\<close>, and has
  no entry for a name no such row resolves to (nor for the empty name); every name occurs
  once. Two \<^verbatim>\<open>is_stmt\<close> rows at file 1, line 10, with index 1 declared as \<^verbatim>\<open>a.c\<close>, give
  exactly the one entry \<^verbatim>\<open>a.c\<close> with the one line 10.
\<close>

theorem candidate_lines_by_file:
  "(row_file r \<notin> dom file_table \<longrightarrow>
      resolve_name file_table r = [] \<and>
      get_line_numbers_by_file file_table (xs @ r # ys)
        = get_line_numbers_by_file file_table (xs @ ys))
   \<and> map_of (get_line_numbers_by_file file_table rows) f =
       (if f \<noteq> [] \<and> selected file_table rows f \<noteq> {}
        then Some (sorted_list_of_set (selected file_table rows f)) else None)
   \<and> selected file_table rows f =
       row_line ` {r \<in> set rows. resolve_name file_table r = f
                     \<and> str_contains ''is_stmt'' (row_flags r)}
   \<and> distinct (map fst (get_line_numbers_by_file file_table rows))
   \<and> get_line_numbers_by_file demo_file_table
        [demo_row 4096 10 1 ''is_stmt'', demo_row 4100 10 1 ''is_stmt''] = [(''a.c'', [10])]"
proof (intro conjI impI)
  assume a: "row_file r \<notin> dom file_table"
  then show "resolve_name file_table r = []"
    by (auto simp: resolve_name_def basename_def dom_def)
  show "get_line_numbers_by_file file_table (xs @ r # ys)
        = get_line_numbers_by_file file_table (xs @ ys)"
    unfolding get_line_numbers_by_file_def by (simp only: foldl_step_dropped [OF a])
next
  show "map_of (get_line_numbers_by_file file_table rows) f =
       (if f \<noteq> [] \<and> selected file_table rows f \<noteq> {}
        then Some (sorted_list_of_set (selected file_table rows f)) else None)"
    by (rule map_of_get_line_numbers_by_file)
next
  show "selected file_table rows f =
       row_line ` {r \<in> set rows. resolve_name file_table r = f
                     \<and> str_contains ''is_stmt'' (row_flags r)}"
    by (rule selected_def)
next
  have "distinct (map fst (foldl (by_file_step file_table) [] rows))"
    by (rule distinct_foldl_step) simp
  then show "distinct (map fst (get_line_numbers_by_file file_table rows))"
    by (simp add: get_line_numbers_by_file_def case_prod_unfold comp_def)
next
  show "get_line_numbers_by_file demo_file_table
        [demo_row 4096 10 1 ''is_stmt'', demo_row 4100 10 1 ''is_stmt''] = [(''a.c'', [10])]"
    by (simp add: get_line_numbers_by_file_def by_file_step_def resolve_name_def basename_def
          demo_row_def demo_file_table_def)
qed

theorem candidate_lines_by_file_witness:
  "resolve_name demo_file_table (demo_row 4104 11 2 ''is_stmt'') = []
   \<and> get_line_numbers_by_file demo_file_table
       [demo_row 4096 10 1 ''is_stmt'', demo_row 4104 11 2 ''is_stmt'',
        demo_row 4100 10 1 ''is_stmt'', demo_row 4108 12 1 ''basic_block'']
     = get_line_numbers_by_file demo_file_table
       [demo_row 4096 10 1 ''is_stmt'',
        demo_row 4100 10 1 ''is_stmt'', demo_row 4108 12 1 ''basic_block'']"
proof -
  have h: "row_file (demo_row 4104 11 2 ''is_stmt'') \<notin> dom demo_file_table"
    by (simp add: demo_row_def demo_file_table_def)
  from h candidate_lines_by_file
         [of "demo_row 4104 11 2 ''is_stmt''" demo_file_table
             "[demo_row 4096 10 1 ''is_stmt'']"
             "[demo_row 4100 10 1 ''is_stmt'', demo_row 4108 12 1 ''basic_block'']"]
  show ?thesis by simp
qed

subsection \<open>Breakpoint verification\<close>

lemma record_hit_subset:
  "record_hit breakpoints l h v \<subseteq> v \<union> snd ` set breakpoints"
  by (auto simp: record_hit_def find_Some_iff split: option.splits) (metis nth_mem snd_conv image_eqI)

lemma record_hit_finite: "finite v \<Longrightarrow> finite (record_hit breakpoints l h v)"
  by (auto simp: record_hit_def split: option.splits)

lemma stop_continue_loop_subset:
  assumes "stop_continue_loop S breakpoints process v = Some r"
  shows "\<forall>v' p'. r = (Returned v', p') \<longrightarrow> v \<subseteq> snd ` set breakpoints \<longrightarrow> finite v
           \<longrightarrow> v' \<subseteq> snd ` set breakpoints \<and> finite v'"
proof (rule stop_continue_loop.raw_induct
    [where P = "\<lambda>S breakpoints process v r.
        \<forall>v' p'. r = (Returned v', p') \<longrightarrow> v \<subseteq> snd ` set breakpoints \<longrightarrow> finite v
           \<longrightarrow> v' \<subseteq> snd ` set breakpoints \<and> finite v'", OF _ assms])
  fix loop :: "'a Session \<Rightarrow> (nat \<times> int) list \<Rightarrow> 'a \<Rightarrow> int set \<Rightarrow> (int set outcome \<times> 'a) option"
  fix S breakpoints process v r
  assume IH: "\<And>S breakpoints process v r. loop S breakpoints process v = Some r \<Longrightarrow>
      \<forall>v' p'. r = (Returned v', p') \<longrightarrow> v \<subseteq> snd ` set breakpoints \<longrightarrow> finite v
           \<longrightarrow> v' \<subseteq> snd ` set breakpoints \<and> finite v'"
  assume body: "(if is_stopped S process then
        (case stop_event S process of
           BreakpointStop line_number_hit hit_count \<Rightarrow>
             loop S breakpoints (Continue S process)
               (record_hit breakpoints line_number_hit hit_count v)
         | OtherStop \<Rightarrow> loop S breakpoints (Continue S process) v
         | Fault \<Rightarrow> Some (Raised DebuggerError, process))
      else Some (Returned v, process)) = Some r"
  show "\<forall>v' p'. r = (Returned v', p') \<longrightarrow> v \<subseteq> snd ` set breakpoints \<longrightarrow> finite v
           \<longrightarrow> v' \<subseteq> snd ` set breakpoints \<and> finite v'"
  proof (cases "is_stopped S process")
    case False
    with body show ?thesis by auto
  next
    case True
    show ?thesis
    proof (cases "stop_event S process")
      case (BreakpointStop l h)
      with True body
      have "loop S breakpoints (Continue S process) (record_hit breakpoints l h v) = Some r"
        by simp
      from IH [OF this] record_hit_subset [of breakpoints l h v]
        record_hit_finite [of v breakpoints l h]
      show ?thesis by blast
    next
      case OtherStop
      with True body have "loop S breakpoints (Continue S process) v = Some r" by simp
      from IH [OF this] show ?thesis by blast
    next
      case Fault
      with True body show ?thesis by auto
    qed
  qed
qed

lemma create_breakpoints_subset:
  "snd ` set (create_breakpoints S source_file line_nums) \<subseteq> set line_nums"
  by (auto simp: create_breakpoints_def dest: set_zip_rightD)

lemma verified_of_loop:
  assumes "stop_continue_loop S (create_breakpoints S source_file line_nums) process {}
             = Some (Returned v, p')"
  shows "set (sorted_list_of_set v) \<subseteq> set line_nums \<and> sorted (sorted_list_of_set v)
           \<and> distinct (sorted_list_of_set v)"
proof -
  from stop_continue_loop_subset [OF assms]
  have "v \<subseteq> snd ` set (create_breakpoints S source_file line_nums) \<and> finite v" by simp
  with create_breakpoints_subset [of S source_file line_nums] show ?thesis by auto
qed

lemma utils_verified:
  assumes "utils_verify_line_nums S source_file binary_file line_nums
            = Some (Returned (Some verified), log)"
  shows "set verified \<subseteq> set line_nums \<and> sorted verified \<and> distinct verified"
proof -
  from assms obtain process v p' where
    l: "stop_continue_loop S (create_breakpoints S source_file line_nums) process {}
       = Some (Returned v, p')" and v: "verified = sorted_list_of_set v"
    by (auto simp: utils_verify_line_nums_def Let_def
          split: target_result.splits launch_result.splits option.splits outcome.splits prod.splits)
  from verified_of_loop [OF l] v show ?thesis by simp
qed

lemma standalone_verified:
  assumes "standalone_verify_line_nums S source_file binary_file line_nums
            = Some (Returned (Some verified), log)"
  shows "set verified \<subseteq> set line_nums \<and> sorted verified \<and> distinct verified"
proof -
  from assms obtain process v p' where
    l: "stop_continue_loop S (create_breakpoints S source_file line_nums) process {}
       = Some (Returned v, p')" and v: "verified = sorted_list_of_set v"
    by (auto simp: standalone_verify_line_nums_def Let_def
          split: target_result.splits launch_result.splits option.splits outcome.splits prod.splits)
  from verified_of_loop [OF l] v show ?thesis by simp
qed

lemma two_file_candidates:
  "get_line_numbers_by_file
     [1 \<mapsto> \<lparr> ft_name = Some ''a.c'', ft_dir_index = Some 0 \<rparr>,
      2 \<mapsto> \<lparr> ft_name = Some ''b.c'', ft_dir_index = Some 0 \<rparr>]
     [demo_row 4096 5 1 ''is_stmt'', demo_row 4100 6 1 ''is_stmt'',
      demo_row 4104 9 1 ''is_stmt'', demo_row 4108 3 2 ''is_stmt'']
   = [(''a.c'', [5, 6, 9]), (''b.c'', [3])]"
  by (simp add: get_line_numbers_by_file_def by_file_step_def resolve_name_def basename_def
        demo_row_def)

lemma straight_line_utils:
  "utils_verify_line_nums straight_line ''a.c'' ''a.out'' [5, 6, 9]
     = Some (Returned (Some [5, 6]), [DeleteAllBreakpoints, DeleteTarget, DestroyDebugger])"
  by (simp add: utils_verify_line_nums_def straight_line_def create_breakpoints_def
        stop_continue_loop.simps record_hit_def upt_rec utils_release_def)

lemma faulting_utils:
  "utils_verify_line_nums faulting ''b.c'' ''a.out'' [3]
     = Some (Raised DebuggerError, [DeleteAllBreakpoints, DeleteTarget, DestroyDebugger])"
  by (simp add: utils_verify_line_nums_def faulting_def straight_line_def create_breakpoints_def
        stop_continue_loop.simps record_hit_def upt_rec utils_release_def)

lemma launch_fails_utils:
  "utils_verify_line_nums launch_fails ''b.c'' ''a.out'' [3]
     = Some (Returned None, [DeleteAllBreakpoints, DeleteTarget, DestroyDebugger])"
  by (simp add: utils_verify_line_nums_def launch_fails_def straight_line_def
        utils_release_def)

lemma invalid_standalone:
  "standalone_verify_line_nums invalid_target ''b.c'' ''a.out'' [3]
     = Some (Raised (UnboundLocalError ''process''), [])"
  by (simp add: standalone_verify_line_nums_def invalid_target_def straight_line_def)

lemma faulting_standalone:
  "standalone_verify_line_nums faulting ''b.c'' ''a.out'' [3]
     = Some (Returned None,
             [Kill, DestroyProcess, DeleteAllBreakpoints, DeleteTarget, DestroyDebugger])"
  by (simp add: standalone_verify_line_nums_def faulting_def straight_line_def
        create_breakpoints_def stop_continue_loop.simps standalone_cleanup_def)

lemma launch_fails_standalone:
  "standalone_verify_line_nums launch_fails ''b.c'' ''a.out'' [3]
     = Some (Returned None, [DeleteAllBreakpoints, DeleteTarget, DestroyDebugger])"
  by (simp add: standalone_verify_line_nums_def launch_fails_def straight_line_def
        standalone_cleanup_def)

lemma straight_line_standalone:
  "standalone_verify_line_nums straight_line ''a.c'' ''a.out'' [5, 6, 9]
     = Some (Returned (Some [5, 6]),
             [Kill, DestroyProcess, DeleteAllBreakpoints, DeleteTarget, DestroyDebugger])"
  by (simp add: standalone_verify_line_nums_def straight_line_def create_breakpoints_def
        stop_continue_loop.simps record_hit_def upt_rec standalone_cleanup_def)

text \<open>
  C1. Whenever \<^verbatim>\<open>verify_line_nums\<close> returns a list, in \<^verbatim>\<open>utils.py\<close> and in
  \<^verbatim>\<open>get_line_nums.py\<close> alike, every line of the list is one of the candidate lines it was
  given, and the list is in ascending order without repetition. This holds for every
  session of the debugger, every source file and every candidate list.
\<close>

theorem verified_lines_subset_sorted:
  "(utils_verify_line_nums S source_file binary_file line_nums
        = Some (Returned (Some verified), log)
      \<longrightarrow> set verified \<subseteq> set line_nums \<and> sorted verified \<and> distinct verified)
   \<and> (standalone_verify_line_nums S source_file binary_file line_nums
        = Some (Returned (Some verified), log')
      \<longrightarrow> set verified \<subseteq> set line_nums \<and> sorted verified \<and> distinct verified)"
  using utils_verified standalone_verified by blast

theorem verified_lines_subset_sorted_witness:
  "utils_verify_line_nums straight_line ''a.c'' ''a.out'' [5, 6, 9]
       = Some (Returned (Some [5, 6]), [DeleteAllBreakpoints, DeleteTarget, DestroyDebugger])
   \<and> standalone_verify_line_nums straight_line ''a.c'' ''a.out'' [5, 6, 9]
       = Some (Returned (Some [5, 6]),
               [Kill, DestroyProcess, DeleteAllBreakpoints, DeleteTarget, DestroyDebugger])
   \<and> set [5, 6] \<subseteq> set [5, 6, 9 :: int] \<and> sorted [5, 6 :: int] \<and> distinct [5, 6 :: int]"
  using straight_line_utils straight_line_standalone
    verified_lines_subset_sorted
      [where S = straight_line and source_file = "''a.c''" and binary_file = "''a.out''"
         and line_nums = "[5, 6, 9]" and verified = "[5, 6]"
         and log = "[DeleteAllBreakpoints, DeleteTarget, DestroyDebugger]"
         and log' = "[Kill, DestroyProcess, DeleteAllBreakpoints, DeleteTarget, DestroyDebugger]"]
  by blast

lemma dict_set_mem:
  "(k', v') \<in> set (dict_set k v d) \<Longrightarrow> (k', v') = (k, v) \<or> (k', v') \<in> set d"
  by (induction d) (auto split: if_splits)

lemma verify_files_entries:
  assumes "verify_files verify source_files candidates acc = Some (Returned m)"
    and "(f, vs) \<in> set m"
  shows "(f, vs) \<in> set acc \<or>
         (\<exists>ls log. (f, ls) \<in> set candidates \<and> f \<in> set source_files
            \<and> verify f ls = Some (Returned (Some vs), log) \<and> vs \<noteq> [])"
  using assms
proof (induction verify source_files candidates acc rule: verify_files.induct)
  case (1 verify source_files acc)
  then show ?case by simp
next
  case (2 verify source_files source_file line_nums rest acc)
  show ?case
  proof (cases "source_file \<in> set source_files")
    case False
    with 2(3)[OF False] 2(4,5) show ?thesis by auto
  next
    case True
    from True 2(4) obtain r log where v: "verify source_file line_nums = Some (Returned r, log)"
      by (auto split: option.splits outcome.splits prod.splits)
    show ?thesis
    proof (cases "truthy_lines r")
      case t: True
      then obtain xs where r: "r = Some xs" and xs: "xs \<noteq> []"
        by (auto simp: truthy_lines_def split: option.splits)
      from True v t 2(4)
      have "verify_files verify source_files rest (dict_set source_file (the r) acc)
              = Some (Returned m)" by simp
      from 2(1) [OF True v _ _ t this 2(5)] dict_set_mem [of f vs source_file "the r" acc]
        v r xs True
      show ?thesis by auto
    next
      case f: False
      from True v f 2(4)
      have "verify_files verify source_files rest acc = Some (Returned m)" by simp
      from 2(2) [OF True v _ _ f this 2(5)] show ?thesis by auto
    qed
  qed
qed

lemma verify_files_seen:
  assumes "\<And>f ls. seen_by_loop (v1 f ls) = seen_by_loop (v2 f ls)"
  shows "verify_files v1 source_files candidates acc
           = verify_files v2 source_files candidates acc"
proof (induction candidates arbitrary: acc)
  case Nil
  show ?case by simp
next
  case (Cons c rest)
  obtain source_file line_nums where c: "c = (source_file, line_nums)" by (cases c)
  from assms [of source_file line_nums] show ?case
    unfolding c
    by (auto simp: Cons.IH seen_by_loop_def truthy_lines_def
          split: option.splits outcome.splits prod.splits if_splits)
qed

lemma get_line_nums_body_entries:
  assumes "get_line_nums_body verify dwarfdump binary_file = Some m" and "(f, vs) \<in> set m"
  shows "vs \<noteq> [] \<and>
     (\<exists>file_table line_info ls log.
         parse_debug_line dwarfdump binary_file = Returned (file_table, line_info)
       \<and> map_of (get_line_numbers_by_file file_table line_info) f = Some ls
       \<and> verify f ls = Some (Returned (Some vs), log))"
proof -
  from assms obtain source_files file_table line_info where
    p: "parse_debug_line dwarfdump binary_file = Returned (file_table, line_info)" and
    vf: "verify_files verify source_files (get_line_numbers_by_file file_table line_info) []
          = Some (Returned m)"
    by (auto simp: get_line_nums_body_def split: outcome.splits option.splits prod.splits)
  from verify_files_entries [OF vf assms(2)] obtain ls log where
    "(f, ls) \<in> set (get_line_numbers_by_file file_table line_info)"
    "verify f ls = Some (Returned (Some vs), log)" "vs \<noteq> []" by auto
  moreover have "distinct (map fst (get_line_numbers_by_file file_table line_info))"
    using distinct_foldl_step [of "[]" file_table line_info]
    by (simp add: get_line_numbers_by_file_def case_prod_unfold comp_def)
  ultimately show ?thesis using p by auto
qed


lemma utils_get_line_nums_demo:
  "utils_get_line_nums
     (\<lambda>f. if f = ''a.c'' then straight_line else launch_fails) two_file_dump ''a.out''
   = Some [(''a.c'', [5, 6])]"
  by (simp add: utils_get_line_nums_def get_line_nums_body_def two_file_dump_def
        two_file_candidates straight_line_utils launch_fails_utils truthy_lines_def)

lemma standalone_get_line_nums_demo:
  "standalone_get_line_nums
     (\<lambda>f. if f = ''a.c'' then straight_line else faulting) two_file_dump ''a.out''
   = Some [(''a.c'', [5, 6])]"
  by (simp add: standalone_get_line_nums_def get_line_nums_body_def two_file_dump_def
        two_file_candidates straight_line_standalone faulting_standalone truthy_lines_def)

text \<open>
  C10. Whenever \<^verbatim>\<open>get_line_nums\<close> returns a mapping (in either module), every entry of it
  holds a non-empty list, namely the list that \<^verbatim>\<open>verify_line_nums\<close> returned for that file
  and its candidate lines. So a file whose verification returned \<^verbatim>\<open>None\<close> or the empty
  list has no entry. Moreover the loop sees the same thing for \<^verbatim>\<open>None\<close> and for the empty
  list, and \<^verbatim>\<open>get_line_nums\<close> returns the same mapping for any two verifiers that look the
  same to the loop on every file.
\<close>

theorem get_line_nums_has_no_empty_entry:
  "(utils_get_line_nums lldb dwarfdump binary_file = Some m \<and> (f, vs) \<in> set m \<longrightarrow>
      vs \<noteq> [] \<and>
      (\<exists>file_table line_info ls log.
          parse_debug_line dwarfdump binary_file = Returned (file_table, line_info)
        \<and> map_of (get_line_numbers_by_file file_table line_info) f = Some ls
        \<and> utils_verify_line_nums (lldb f) f binary_file ls = Some (Returned (Some vs), log)))
   \<and> (standalone_get_line_nums lldb dwarfdump binary_file = Some m' \<and> (f, vs) \<in> set m' \<longrightarrow>
      vs \<noteq> [] \<and>
      (\<exists>file_table line_info ls log.
          parse_debug_line dwarfdump binary_file = Returned (file_table, line_info)
        \<and> map_of (get_line_numbers_by_file file_table line_info) f = Some ls
        \<and> standalone_verify_line_nums (lldb f) f binary_file ls
             = Some (Returned (Some vs), log)))
   \<and> seen_by_loop (Some (Returned None, log1)) = seen_by_loop (Some (Returned (Some []), log2))
   \<and> ((\<forall>f ls. seen_by_loop (v1 f ls) = seen_by_loop (v2 f ls)) \<longrightarrow>
        get_line_nums_body v1 dwarfdump binary_file
          = get_line_nums_body v2 dwarfdump binary_file)"
proof (intro conjI)
  show "utils_get_line_nums lldb dwarfdump binary_file = Some m \<and> (f, vs) \<in> set m \<longrightarrow>
      vs \<noteq> [] \<and>
      (\<exists>file_table line_info ls log.
          parse_debug_line dwarfdump binary_file = Returned (file_table, line_info)
        \<and> map_of (get_line_numbers_by_file file_table line_info) f = Some ls
        \<and> utils_verify_line_nums (lldb f) f binary_file ls = Some (Returned (Some vs), log))"
    unfolding utils_get_line_nums_def
    using get_line_nums_body_entries
      [where verify = "\<lambda>source_file line_nums.
          utils_verify_line_nums (lldb source_file) source_file binary_file line_nums"]
    by blast
  show "standalone_get_line_nums lldb dwarfdump binary_file = Some m' \<and> (f, vs) \<in> set m' \<longrightarrow>
      vs \<noteq> [] \<and>
      (\<exists>file_table line_info ls log.
          parse_debug_line dwarfdump binary_file = Returned (file_table, line_info)
        \<and> map_of (get_line_numbers_by_file file_table line_info) f = Some ls
        \<and> standalone_verify_line_nums (lldb f) f binary_file ls
             = Some (Returned (Some vs), log))"
    unfolding standalone_get_line_nums_def
    using get_line_nums_body_entries
      [where verify = "\<lambda>source_file line_nums.
          standalone_verify_line_nums (lldb source_file) source_file binary_file line_nums"]
    by blast
  show "seen_by_loop (Some (Returned None, log1))
          = seen_by_loop (Some (Returned (Some []), log2))"
    by (simp add: seen_by_loop_def truthy_lines_def)
  show "(\<forall>f ls. seen_by_loop (v1 f ls) = seen_by_loop (v2 f ls)) \<longrightarrow>
        get_line_nums_body v1 dwarfdump binary_file
          = get_line_nums_body v2 dwarfdump binary_file"
    by (auto simp: get_line_nums_body_def verify_files_seen [of v1 v2]
          split: outcome.splits prod.splits)
qed

theorem get_line_nums_has_no_empty_entry_witness:
  "utils_get_line_nums
       (\<lambda>f. if f = ''a.c'' then straight_line else launch_fails) two_file_dump ''a.out''
     = Some [(''a.c'', [5, 6])]
   \<and> standalone_get_line_nums
       (\<lambda>f. if f = ''a.c'' then straight_line else launch_fails) two_file_dump ''a.out''
     = Some [(''a.c'', [5, 6])]
   \<and> [5, 6 :: int] \<noteq> []
   \<and> get_line_nums_body (\<lambda>f ls. Some (Returned None, ())) two_file_dump ''a.out''
     = get_line_nums_body (\<lambda>f ls. Some (Returned (Some []), ())) two_file_dump ''a.out''"
proof -
  let ?none = "\<lambda>(f::string) (ls::int list). Some (Returned (None :: int list option), ())"
  let ?empty = "\<lambda>(f::string) (ls::int list). Some (Returned (Some ([] :: int list)), ())"
  have same: "\<forall>f ls. seen_by_loop (?none f ls) = seen_by_loop (?empty f ls)"
    by (simp add: seen_by_loop_def truthy_lines_def)
  have mem: "(''a.c'', [5, 6 :: int]) \<in> set [(''a.c'', [5, 6])]" by simp
  have st: "standalone_get_line_nums
       (\<lambda>f. if f = ''a.c'' then straight_line else launch_fails) two_file_dump ''a.out''
     = Some [(''a.c'', [5, 6])]"
    by (simp add: standalone_get_line_nums_def get_line_nums_body_def two_file_dump_def
        two_file_candidates straight_line_standalone launch_fails_standalone truthy_lines_def)
  note inst = get_line_nums_has_no_empty_entry
      [where lldb = "\<lambda>f. if f = ''a.c'' then straight_line else launch_fails"
         and dwarfdump = two_file_dump and binary_file = "''a.out''"
         and m = "[(''a.c'', [5, 6])]" and m' = "[(''a.c'', [5, 6])]"
         and f = "''a.c''" and vs = "[5, 6]"
         and ?v1.0 = ?none and ?v2.0 = ?empty and ?log1.0 = "()" and ?log2.0 = "()"]
  from inst same
  have body: "get_line_nums_body ?none two_file_dump ''a.out''
      = get_line_nums_body ?empty two_file_dump ''a.out''" by blast
  from inst utils_get_line_nums_demo mem have "[5, 6 :: int] \<noteq> []" by blast
  with utils_get_line_nums_demo st body show ?thesis by simp
qed

text \<open>
  C4 (evaluation at the failing input). A binary with the compile units \<^verbatim>\<open>a.c\<close> and
  \<^verbatim>\<open>b.c\<close>: the session for \<^verbatim>\<open>a.c\<close> verifies lines 5 and 6, the session for \<^verbatim>\<open>b.c\<close>
  raises inside the stop/continue loop. \<^verbatim>\<open>verify_line_nums\<close> of \<^verbatim>\<open>utils.py\<close> lets the
  exception through, \<^verbatim>\<open>get_line_nums\<close> catches it around the whole loop and returns the empty
  mapping: the lines already verified for \<^verbatim>\<open>a.c\<close> are lost. When \<^verbatim>\<open>b.c\<close> fails at launch
  instead, \<^verbatim>\<open>a.c\<close> keeps its lines, as it does in \<^verbatim>\<open>get_line_nums.py\<close> for the exception.
\<close>

theorem loop_exception_discards_sibling_files:
  "utils_verify_line_nums straight_line ''a.c'' ''a.out'' [5, 6, 9]
       = Some (Returned (Some [5, 6]), [DeleteAllBreakpoints, DeleteTarget, DestroyDebugger])
   \<and> utils_get_line_nums
       (\<lambda>f. if f = ''a.c'' then straight_line else faulting) two_file_dump ''a.out''
     = Some []
   \<and> utils_get_line_nums
       (\<lambda>f. if f = ''a.c'' then straight_line else launch_fails) two_file_dump ''a.out''
     = Some [(''a.c'', [5, 6])]
   \<and> standalone_get_line_nums
       (\<lambda>f. if f = ''a.c'' then straight_line else faulting) two_file_dump ''a.out''
     = Some [(''a.c'', [5, 6])]"
proof -
  have "utils_get_line_nums
       (\<lambda>f. if f = ''a.c'' then straight_line else faulting) two_file_dump ''a.out''
     = Some []"
    by (simp add: utils_get_line_nums_def get_line_nums_body_def two_file_dump_def
        two_file_candidates straight_line_utils faulting_utils truthy_lines_def)
  with straight_line_utils utils_get_line_nums_demo standalone_get_line_nums_demo
  show ?thesis by simp
qed

text \<open>
  C5 (evaluation at the failing inputs). In \<^verbatim>\<open>utils.py\<close> a session whose loop raises while
  the process is stopped at a breakpoint, and is still valid, ends without \<open>Kill\<close> and
  \<open>DestroyProcess\<close>; so does a run to completion. In \<^verbatim>\<open>get_line_nums.py\<close> a session whose
  target is invalid ends with no release at all, not even of the debugger.
\<close>

theorem session_exit_without_release:
  "utils_verify_line_nums faulting ''b.c'' ''a.out'' [3]
       = Some (Raised DebuggerError, [DeleteAllBreakpoints, DeleteTarget, DestroyDebugger])
   \<and> is_stopped faulting 0 \<and> process_IsValid faulting 0
   \<and> utils_verify_line_nums straight_line ''a.c'' ''a.out'' [5, 6, 9]
       = Some (Returned (Some [5, 6]), [DeleteAllBreakpoints, DeleteTarget, DestroyDebugger])
   \<and> process_IsValid straight_line 2
   \<and> standalone_verify_line_nums invalid_target ''b.c'' ''a.out'' [3]
       = Some (Raised (UnboundLocalError ''process''), [])"
  using faulting_utils straight_line_utils invalid_standalone
  by (simp add: faulting_def straight_line_def)

subsection \<open>The sweep over optimisation and debug levels\<close>

lemma lookup_remove_entry:
  "lookup (remove_entry p fs) q = (if q = p then None else lookup fs q)"
  by (induction fs) (auto simp: lookup_def remove_entry_def)

lemma lookup_write_file:
  "lookup (write_file p bytes fs) q = (if q = p then Some (File bytes) else lookup fs q)"
  by (simp add: write_file_def lookup_def lookup_remove_entry [unfolded lookup_def])

lemma path_exists_remove_entry:
  "path_exists (remove_entry p fs) q \<longleftrightarrow> q \<noteq> p \<and> path_exists fs q"
  by (simp add: path_exists_def lookup_remove_entry)

lemma demo_generate_binary_for:
  "generate_binary_for demo_toolchain demo_analyzer ''0'' ''1'' fs
     = (Returned (Some (demo_binary_for ''0'' ''plain'')),
        write_file ''out/a_O0_D1.out'' ''plain'' fs)"
  "generate_binary_for demo_toolchain demo_analyzer ''1'' ''1'' fs
     = (Returned (Some (demo_binary_for ''1'' ''plain'')),
        write_file ''out/a_O1_D1.out'' ''plain'' fs)"
  "generate_binary_for demo_toolchain demo_analyzer ''2'' ''1'' fs
     = (Returned (Some (demo_binary_for ''2'' ''fast'')),
        write_file ''out/a_O2_D1.out'' ''fast'' fs)"
  "generate_binary_for demo_toolchain demo_analyzer ''3'' ''1'' fs = (Returned None, fs)"
  by (simp_all add: generate_binary_for_def generate_binary_def Binary_init_def compile_cmd_def
        compute_hash_def write_file_def lookup_def stem_def basename_def Let_def
        demo_toolchain_def demo_analyzer_def BinaryAnalyzer_init_def demo_binary_for_def)

lemma demo_generate_variants:
  "generate_variants demo_toolchain demo_analyzer demo_fs
     = (None,
        demo_analyzer \<lparr> binaries := [demo_binary_for ''0'' ''plain'', demo_binary_for ''2'' ''fast''] \<rparr>,
        demo_fs_after)"
proof -
  have cfg: "opt_levels (compiler_config demo_analyzer) = [''0'', ''1'', ''2'', ''3'']"
    "dbg_levels (compiler_config demo_analyzer) = [''1'']" "binaries demo_analyzer = []"
    by (simp_all add: demo_analyzer_def BinaryAnalyzer_init_def)
  show ?thesis
    by (simp add: generate_variants_def cfg variant_step_def demo_generate_binary_for
          demo_binary_for_def write_file_def remove_entry_def demo_fs_def demo_fs_after_def)
qed

lemma variant_step_retained:
  assumes "generate_binary_for T a opt_level dbg_level (disk st) = (Returned (Some b), fs')"
  shows "variant_step T a opt_level dbg_level st =
           (None, if hash_value b \<in> file_hashes st then st \<lparr> disk := fs' \<rparr>
                  else \<lparr> retained = retained st @ [b],
                         file_hashes = insert (hash_value b) (file_hashes st), disk = fs' \<rparr>)"
  using assms by (simp add: variant_step_def)

lemma variant_step_inv:
  assumes "sweep_inv st" and "variant_step T a opt_level dbg_level st = (err, st')"
  shows "sweep_inv st'"
  using assms
  by (auto simp: variant_step_def sweep_inv_def
        split: prod.splits outcome.splits option.splits if_splits)

lemma debug_level_loop_inv:
  "sweep_inv st \<Longrightarrow> debug_level_loop T a opt_level ds st = (err, st') \<Longrightarrow> sweep_inv st'"
proof (induction ds arbitrary: st)
  case Nil
  then show ?case by simp
next
  case (Cons d ds)
  obtain e1 st1 where s: "variant_step T a opt_level d st = (e1, st1)" by force
  from variant_step_inv [OF Cons.prems(1) s] have i: "sweep_inv st1" .
  from Cons.prems(2) s i Cons.IH [OF i] show ?case by (cases e1) auto
qed

lemma opt_level_loop_inv:
  "sweep_inv st \<Longrightarrow> opt_level_loop T a os st = (err, st') \<Longrightarrow> sweep_inv st'"
proof (induction os arbitrary: st)
  case Nil
  then show ?case by simp
next
  case (Cons opt os)
  obtain e1 st1 where
    s: "debug_level_loop T a opt (dbg_levels (compiler_config a)) st = (e1, st1)" by force
  from debug_level_loop_inv [OF Cons.prems(1) s] have i: "sweep_inv st1" .
  from Cons.prems(2) s i Cons.IH [OF i] show ?case by (cases e1) auto
qed

lemma generate_variants_distinct:
  assumes "binaries a = []" and "generate_variants T a fs = (err, a', fs')"
  shows "distinct (map hash_value (binaries a'))"
proof -
  let ?st0 = "\<lparr> retained = binaries a, file_hashes = {}, disk = fs \<rparr>"
  obtain e st where l: "opt_level_loop T a (opt_levels (compiler_config a)) ?st0 = (e, st)"
    by force
  have "sweep_inv ?st0" using assms(1) by (simp add: sweep_inv_def)
  from opt_level_loop_inv [OF this l] have "sweep_inv st" .
  with assms(2) l show ?thesis by (auto simp: generate_variants_def sweep_inv_def)
qed

text \<open>
  C2. After \<^verbatim>\<open>generate_variants\<close> on an analyzer whose list of binaries is empty (as
  \<^verbatim>\<open>__init__\<close> leaves it), no two retained binaries have the same hash, whatever the
  compiler and the digest do and whether or not the sweep ended with an exception. The
  sweep starts in a state satisfying the invariant and every step keeps it; in such a state
  the hash set is the set of hashes of the retained binaries, and a binary that compiled
  is appended if its hash is not in the set and the list is left as it is otherwise.
\<close>

theorem retained_binaries_have_distinct_hashes:
  "(binaries a = [] \<and> generate_variants T a fs = (err, a', fs') \<longrightarrow>
      distinct (map hash_value (binaries a')))
   \<and> sweep_inv \<lparr> retained = [], file_hashes = {}, disk = fs \<rparr>
   \<and> (sweep_inv st \<longrightarrow> sweep_inv (snd (variant_step T a opt_level dbg_level st)))
   \<and> (sweep_inv st \<and>
       generate_binary_for T a opt_level dbg_level (disk st) = (Returned (Some b), fs1) \<longrightarrow>
        file_hashes st = hash_value ` set (retained st) \<and>
        retained (snd (variant_step T a opt_level dbg_level st))
          = (if hash_value b \<in> file_hashes st then retained st else retained st @ [b]))"
proof (intro conjI impI)
  assume "binaries a = [] \<and> generate_variants T a fs = (err, a', fs')"
  then show "distinct (map hash_value (binaries a'))"
    using generate_variants_distinct by blast
next
  show "sweep_inv \<lparr> retained = [], file_hashes = {}, disk = fs \<rparr>"
    by (simp add: sweep_inv_def)
next
  assume "sweep_inv st"
  then show "sweep_inv (snd (variant_step T a opt_level dbg_level st))"
    using variant_step_inv [of st T a opt_level dbg_level] by (metis prod.collapse)
next
  assume h: "sweep_inv st \<and>
       generate_binary_for T a opt_level dbg_level (disk st) = (Returned (Some b), fs1)"
  then show "file_hashes st = hash_value ` set (retained st)" by (simp add: sweep_inv_def)
  from h show "retained (snd (variant_step T a opt_level dbg_level st))
          = (if hash_value b \<in> file_hashes st then retained st else retained st @ [b])"
    by (simp add: variant_step_retained)
qed

theorem retained_binaries_have_distinct_hashes_witness:
  "binaries demo_analyzer = []
   \<and> generate_variants demo_toolchain demo_analyzer demo_fs = (None, demo_retained, demo_fs_after)
   \<and> distinct (map hash_value (binaries demo_retained))
   \<and> sweep_inv demo_sweep
   \<and> sweep_inv (snd (variant_step demo_toolchain demo_analyzer ''1'' ''1'' demo_sweep))
   \<and> hash_value (demo_binary_for ''1'' ''plain'') \<in> file_hashes demo_sweep
   \<and> retained (snd (variant_step demo_toolchain demo_analyzer ''1'' ''1'' demo_sweep))
       = retained demo_sweep"
proof -
  have e: "binaries demo_analyzer = []"
    by (simp add: demo_analyzer_def BinaryAnalyzer_init_def)
  have g: "generate_variants demo_toolchain demo_analyzer demo_fs
             = (None, demo_retained, demo_fs_after)"
    by (simp add: demo_generate_variants demo_retained_def)
  have i: "sweep_inv demo_sweep"
    by (simp add: sweep_inv_def demo_sweep_def demo_binary_for_def)
  have b: "generate_binary_for demo_toolchain demo_analyzer ''1'' ''1'' (disk demo_sweep)
      = (Returned (Some (demo_binary_for ''1'' ''plain'')),
         write_file ''out/a_O1_D1.out'' ''plain'' (disk demo_sweep))"
    by (rule demo_generate_binary_for)
  have m: "hash_value (demo_binary_for ''1'' ''plain'') \<in> file_hashes demo_sweep"
    by (simp add: demo_sweep_def demo_binary_for_def)
  note inst = retained_binaries_have_distinct_hashes
      [where a = demo_analyzer and T = demo_toolchain and fs = demo_fs and err = None
         and a' = demo_retained and fs' = demo_fs_after and st = demo_sweep
         and opt_level = "''1''" and dbg_level = "''1''"
         and b = "demo_binary_for ''1'' ''plain''"
         and ?fs1.0 = "write_file ''out/a_O1_D1.out'' ''plain'' (disk demo_sweep)"]
  from inst e g have 1: "distinct (map hash_value (binaries demo_retained))" by blast
  from inst i have 2:
    "sweep_inv (snd (variant_step demo_toolchain demo_analyzer ''1'' ''1'' demo_sweep))"
    by blast
  from inst i b m have 3:
    "retained (snd (variant_step demo_toolchain demo_analyzer ''1'' ''1'' demo_sweep))
       = retained demo_sweep" by simp
  from e g i m 1 2 3 show ?thesis by blast
qed

lemma generate_binary_for_Some:
  assumes "generate_binary_for T a opt_level dbg_level fs = (Returned (Some b), fs1)"
  shows "\<exists>bytes. run_compiler T (compile_cmd
             (Binary_init (compiler_config a) (analyzer_source_path a) (output_dir a)
                opt_level dbg_level)) = Exit0 bytes
           \<and> fs1 = write_file (file_path b) bytes fs
           \<and> hash_value b = Some (hexdigest T (hash_algorithm b) bytes)
           \<and> lookup fs1 (file_path b) = Some (File bytes)"
  using assms
  by (auto simp: generate_binary_for_def generate_binary_def compute_hash_def Let_def
        lookup_write_file
        split: compile_result.splits sum.splits option.splits node.splits outcome.splits
               bool.splits prod.splits if_splits)

lemma generate_binary_for_keeps:
  assumes "generate_binary_for T a opt_level dbg_level fs = (r, fs1)" and "path_exists fs p"
  shows "path_exists fs1 p"
  using assms
  by (auto simp: generate_binary_for_def generate_binary_def compute_hash_def Let_def
        lookup_write_file path_exists_def
        split: compile_result.splits sum.splits option.splits node.splits outcome.splits
               bool.splits prod.splits if_splits)

lemma variant_step_keeps:
  assumes "variant_step T a opt_level dbg_level st = (err, st')" and "path_exists (disk st) p"
  shows "path_exists (disk st') p"
proof -
  obtain r fs1 where g: "generate_binary_for T a opt_level dbg_level (disk st) = (r, fs1)"
    by force
  from generate_binary_for_keeps [OF g assms(2)] have "path_exists fs1 p" .
  with assms(1) g show ?thesis
    by (auto simp: variant_step_def split: outcome.splits option.splits if_splits)
qed

lemma debug_level_loop_keeps:
  "debug_level_loop T a opt_level ds st = (err, st') \<Longrightarrow> path_exists (disk st) p
     \<Longrightarrow> path_exists (disk st') p"
proof (induction ds arbitrary: st)
  case Nil
  then show ?case by simp
next
  case (Cons d ds)
  obtain e1 st1 where s: "variant_step T a opt_level d st = (e1, st1)" by force
  from variant_step_keeps [OF s Cons.prems(2)] have k: "path_exists (disk st1) p" .
  from Cons.prems(1) s k Cons.IH [OF _ k] show ?case by (cases e1) auto
qed

lemma opt_level_loop_keeps:
  "opt_level_loop T a os st = (err, st') \<Longrightarrow> path_exists (disk st) p
     \<Longrightarrow> path_exists (disk st') p"
proof (induction os arbitrary: st)
  case Nil
  then show ?case by simp
next
  case (Cons opt os)
  obtain e1 st1 where
    s: "debug_level_loop T a opt (dbg_levels (compiler_config a)) st = (e1, st1)" by force
  from debug_level_loop_keeps [OF s Cons.prems(2)] have k: "path_exists (disk st1) p" .
  from Cons.prems(1) s k Cons.IH [OF _ k] show ?case by (cases e1) auto
qed

lemma generate_variants_keeps:
  assumes "generate_variants T a fs = (err, a', fs')" and "path_exists fs p"
  shows "path_exists fs' p"
proof -
  let ?st0 = "\<lparr> retained = binaries a, file_hashes = {}, disk = fs \<rparr>"
  obtain e st where l: "opt_level_loop T a (opt_levels (compiler_config a)) ?st0 = (e, st)"
    by force
  from opt_level_loop_keeps [OF l] assms(2) have "path_exists (disk st) p" by simp
  with assms(1) l show ?thesis by (auto simp: generate_variants_def)
qed

text \<open>
  C3, as stated, fails: in the concrete sweep the \<^verbatim>\<open>-O1\<close> binary has the hash of the
  \<^verbatim>\<open>-O0\<close> binary and is not retained, and its artifact is still on the disk when
  \<^verbatim>\<open>generate_variants\<close> has returned.
\<close>

theorem duplicate_artifact_stays_on_disk_counterexample:
  "generate_variants demo_toolchain demo_analyzer demo_fs = (None, demo_retained, demo_fs_after)
   \<and> map file_name (binaries demo_retained) = [''a_O0_D1.out'', ''a_O2_D1.out'']
   \<and> lookup demo_fs_after ''out/a_O1_D1.out'' = Some (File ''plain'')
   \<and> lookup demo_fs_after ''out/a_O0_D1.out'' = Some (File ''plain'')"
  by (simp add: demo_generate_variants demo_retained_def demo_binary_for_def
        demo_fs_after_def lookup_def)

text \<open>
  C3, amended. When a compilation succeeds and the hash of the binary is already in the
  hash set of the sweep, the step changes neither the retained list nor the hash set, and
  the artifact is on the disk after the step, holding the bytes that were hashed.
  \<^verbatim>\<open>generate_variants\<close> as a whole removes no path from the disk.
\<close>

theorem duplicate_skipped_artifact_kept:
  "(generate_binary_for T a opt_level dbg_level (disk st) = (Returned (Some b), fs1)
      \<and> hash_value b \<in> file_hashes st \<longrightarrow>
        variant_step T a opt_level dbg_level st = (None, st \<lparr> disk := fs1 \<rparr>)
      \<and> (\<exists>bytes. lookup fs1 (file_path b) = Some (File bytes)
                 \<and> hash_value b = Some (hexdigest T (hash_algorithm b) bytes)))
   \<and> (generate_variants T a fs = (err, a', fs') \<and> path_exists fs p \<longrightarrow> path_exists fs' p)"
proof (intro conjI impI)
  assume h: "generate_binary_for T a opt_level dbg_level (disk st) = (Returned (Some b), fs1)
      \<and> hash_value b \<in> file_hashes st"
  then show "variant_step T a opt_level dbg_level st = (None, st \<lparr> disk := fs1 \<rparr>)"
    by (simp add: variant_step_retained)
  from h generate_binary_for_Some [of T a opt_level dbg_level "disk st" b fs1]
  show "\<exists>bytes. lookup fs1 (file_path b) = Some (File bytes)
                 \<and> hash_value b = Some (hexdigest T (hash_algorithm b) bytes)" by blast
next
  assume "generate_variants T a fs = (err, a', fs') \<and> path_exists fs p"
  then show "path_exists fs' p" using generate_variants_keeps by blast
qed

theorem duplicate_skipped_artifact_kept_witness:
  "hash_value (demo_binary_for ''1'' ''plain'') \<in> file_hashes demo_sweep
   \<and> variant_step demo_toolchain demo_analyzer ''1'' ''1'' demo_sweep
       = (None, demo_sweep \<lparr> disk := write_file ''out/a_O1_D1.out'' ''plain'' (disk demo_sweep) \<rparr>)
   \<and> path_exists demo_fs ''src/a.c''
   \<and> path_exists demo_fs_after ''src/a.c''"
proof -
  have b: "generate_binary_for demo_toolchain demo_analyzer ''1'' ''1'' (disk demo_sweep)
      = (Returned (Some (demo_binary_for ''1'' ''plain'')),
         write_file ''out/a_O1_D1.out'' ''plain'' (disk demo_sweep))"
    by (rule demo_generate_binary_for)
  have m: "hash_value (demo_binary_for ''1'' ''plain'') \<in> file_hashes demo_sweep"
    by (simp add: demo_sweep_def demo_binary_for_def)
  have g: "generate_variants demo_toolchain demo_analyzer demo_fs
             = (None, demo_retained, demo_fs_after)"
    by (simp add: demo_generate_variants demo_retained_def)
  have p: "path_exists demo_fs ''src/a.c''"
    by (simp add: path_exists_def lookup_def demo_fs_def)
  note inst = duplicate_skipped_artifact_kept
      [where a = demo_analyzer and T = demo_toolchain and fs = demo_fs and err = None
         and a' = demo_retained and fs' = demo_fs_after and st = demo_sweep
         and opt_level = "''1''" and dbg_level = "''1''"
         and b = "demo_binary_for ''1'' ''plain''" and p = "''src/a.c''"
         and ?fs1.0 = "write_file ''out/a_O1_D1.out'' ''plain'' (disk demo_sweep)"]
  from inst b m have 1: "variant_step demo_toolchain demo_analyzer ''1'' ''1'' demo_sweep
       = (None, demo_sweep \<lparr> disk := write_file ''out/a_O1_D1.out'' ''plain'' (disk demo_sweep) \<rparr>)"
    by blast
  from inst g p have 2: "path_exists demo_fs_after ''src/a.c''" by blast
  from m p 1 2 show ?thesis by blast
qed

subsection \<open>Cleanup\<close>

lemma cleanup_loop_lookup:
  "cleanup_loop bs fs = (None, bs', fs') \<Longrightarrow>
     lookup fs' q = (if q \<in> file_path ` set bs then None else lookup fs q)"
proof (induction bs arbitrary: fs bs')
  case Nil
  then show ?case by simp
next
  case (Cons b bs)
  from Cons.prems obtain b1 fs1 bs1 where
    c: "Binary_cleanup b fs = (None, b1, fs1)" and r: "cleanup_loop bs fs1 = (None, bs1, fs')"
    by (auto split: prod.splits option.splits)
  from c have 1: "lookup fs1 q = (if q = file_path b then None else lookup fs q)"
    by (auto simp: Binary_cleanup_def unlink_def path_exists_def lookup_remove_entry
          split: if_splits option.splits node.splits sum.splits)
  from Cons.IH [OF r] 1 show ?case by auto
qed

lemma cleanup_loop_returns:
  "\<forall>b \<in> set bs. lookup fs (file_path b) \<noteq> Some Dir \<Longrightarrow> fst (cleanup_loop bs fs) = None"
proof (induction bs arbitrary: fs)
  case Nil
  then show ?case by simp
next
  case (Cons b bs)
  from Cons.prems have nd: "lookup fs (file_path b) \<noteq> Some Dir" by simp
  have "\<exists>b1 fs1. Binary_cleanup b fs = (None, b1, fs1)
           \<and> (fs1 = fs \<or> fs1 = remove_entry (file_path b) fs)"
  proof (cases "lookup fs (file_path b)")
    case None
    then show ?thesis by (simp add: Binary_cleanup_def path_exists_def)
  next
    case (Some n)
    with nd obtain bytes where "n = File bytes" by (cases n) auto
    with Some show ?thesis by (simp add: Binary_cleanup_def path_exists_def unlink_def)
  qed
  then obtain b1 fs1 where c: "Binary_cleanup b fs = (None, b1, fs1)"
    and fs1: "fs1 = fs \<or> fs1 = remove_entry (file_path b) fs" by blast
  from fs1 Cons.prems have "\<forall>b' \<in> set bs. lookup fs1 (file_path b') \<noteq> Some Dir"
    by (auto simp: lookup_remove_entry split: if_splits)
  from Cons.IH [OF this] c show ?case by (auto split: prod.splits)
qed

lemma cleanup_loop_no_dir:
  "cleanup_loop bs fs = (None, bs', fs')
     \<Longrightarrow> \<forall>b \<in> set bs. lookup fs (file_path b) \<noteq> Some Dir"
proof (induction bs arbitrary: fs bs')
  case Nil
  then show ?case by simp
next
  case (Cons b bs)
  from Cons.prems obtain b1 fs1 bs1 where
    c: "Binary_cleanup b fs = (None, b1, fs1)" and r: "cleanup_loop bs fs1 = (None, bs1, fs')"
    by (auto split: prod.splits option.splits)
  from c have h: "lookup fs (file_path b) \<noteq> Some Dir"
    and 1: "\<And>q. lookup fs1 q = (if q = file_path b then None else lookup fs q)"
    by (auto simp: Binary_cleanup_def unlink_def path_exists_def lookup_remove_entry
          split: if_splits option.splits node.splits sum.splits)
  from Cons.IH [OF r] have "\<forall>b' \<in> set bs. lookup fs1 (file_path b') \<noteq> Some Dir" .
  with 1 h show ?case by (auto split: if_splits)
qed

lemma iterdir_remove_entry:
  "iterdir fs d = [] \<Longrightarrow> iterdir (remove_entry p fs) d = []"
  by (auto simp: iterdir_def remove_entry_def filter_empty_conv)

lemma demo_cleanup:
  "BinaryAnalyzer_cleanup demo_retained demo_fs_after
     = (None, demo_retained \<lparr> binaries := [] \<rparr>,
        [(''out/a_O1_D1.out'', File ''plain''), (''out'', Dir), (''src'', Dir),
         (''src/a.c'', File ''int main(){}'')])"
  by (simp add: BinaryAnalyzer_cleanup_def demo_retained_def demo_analyzer_def
        BinaryAnalyzer_init_def demo_binary_for_def demo_fs_after_def Binary_cleanup_def
        path_exists_def lookup_def unlink_def remove_entry_def iterdir_def parent_def)

text \<open>
  C9. When \<^verbatim>\<open>cleanup()\<close> of the analyzer returns, no path of a binary of its list exists
  on the disk, the list is empty, and an output directory that existed before is gone
  exactly if nothing is left below it (after the artifacts were unlinked). \<^verbatim>\<open>cleanup()\<close>
  does return whenever no artifact path is a directory and the output path is not a
  regular file.
\<close>

theorem cleanup_removes_artifacts:
  "(BinaryAnalyzer_cleanup a fs = (None, a', fs') \<longrightarrow>
      (\<forall>b \<in> set (binaries a). \<not> path_exists fs' (file_path b)) \<and> binaries a' = [] \<and>
      (lookup fs (output_dir a) = Some Dir \<longrightarrow>
         (\<not> path_exists fs' (output_dir a) \<longleftrightarrow> iterdir fs' (output_dir a) = [])))
   \<and> ((\<forall>b \<in> set (binaries a). lookup fs (file_path b) \<noteq> Some Dir) \<and>
       (\<forall>bytes. lookup fs (output_dir a) \<noteq> Some (File bytes)) \<longrightarrow>
        fst (BinaryAnalyzer_cleanup a fs) = None)"
proof (intro conjI impI)
  assume r: "BinaryAnalyzer_cleanup a fs = (None, a', fs')"
  obtain e bs1 fs1 where l: "cleanup_loop (binaries a) fs = (e, bs1, fs1)"
    by (metis prod_cases3)
  with r have e: "e = None" by (auto simp: BinaryAnalyzer_cleanup_def split: option.splits)
  note look = cleanup_loop_lookup [OF l [unfolded e]]
  from r l e have fs': "fs' = fs1 \<or> fs' = remove_entry (output_dir a) fs1"
    by (auto simp: BinaryAnalyzer_cleanup_def split: option.splits node.splits if_splits)
  show "\<forall>b \<in> set (binaries a). \<not> path_exists fs' (file_path b)"
    using fs' look by (auto simp: path_exists_def lookup_remove_entry)
  show "binaries a' = []"
    using r l e by (auto simp: BinaryAnalyzer_cleanup_def split: option.splits node.splits if_splits)
  assume d: "lookup fs (output_dir a) = Some Dir"
  from cleanup_loop_no_dir [OF l [unfolded e]] d have "output_dir a \<notin> file_path ` set (binaries a)"
    by auto
  with look d have d1: "lookup fs1 (output_dir a) = Some Dir" by simp
  show "\<not> path_exists fs' (output_dir a) \<longleftrightarrow> iterdir fs' (output_dir a) = []"
  proof (cases "iterdir fs1 (output_dir a) = []")
    case True
    with r l e d1 have "fs' = remove_entry (output_dir a) fs1"
      by (simp add: BinaryAnalyzer_cleanup_def)
    with True show ?thesis by (simp add: path_exists_remove_entry iterdir_remove_entry)
  next
    case False
    with r l e d1 have "fs' = fs1" by (simp add: BinaryAnalyzer_cleanup_def)
    with False d1 show ?thesis by (simp add: path_exists_def)
  qed
next
  assume w: "(\<forall>b \<in> set (binaries a). lookup fs (file_path b) \<noteq> Some Dir) \<and>
       (\<forall>bytes. lookup fs (output_dir a) \<noteq> Some (File bytes))"
  obtain e bs1 fs1 where l: "cleanup_loop (binaries a) fs = (e, bs1, fs1)"
    by (metis prod_cases3)
  from cleanup_loop_returns [of "binaries a" fs] w l have e: "e = None" by simp
  from cleanup_loop_lookup [OF l [unfolded e]] w
  have "\<forall>bytes. lookup fs1 (output_dir a) \<noteq> Some (File bytes)" by simp
  with l e show "fst (BinaryAnalyzer_cleanup a fs) = None"
    by (auto simp: BinaryAnalyzer_cleanup_def split: option.splits node.splits)
qed

theorem cleanup_removes_artifacts_witness:
  "BinaryAnalyzer_cleanup demo_retained demo_fs_after
     = (None, demo_retained \<lparr> binaries := [] \<rparr>,
        [(''out/a_O1_D1.out'', File ''plain''), (''out'', Dir), (''src'', Dir),
         (''src/a.c'', File ''int main(){}'')])
   \<and> lookup demo_fs_after (output_dir demo_retained) = Some Dir
   \<and> \<not> path_exists [(''out/a_O1_D1.out'', File ''plain''), (''out'', Dir), (''src'', Dir),
                      (''src/a.c'', File ''int main(){}'')] ''out/a_O0_D1.out''
   \<and> \<not> path_exists [(''out/a_O1_D1.out'', File ''plain''), (''out'', Dir), (''src'', Dir),
                      (''src/a.c'', File ''int main(){}'')] ''out/a_O2_D1.out''
   \<and> path_exists [(''out/a_O1_D1.out'', File ''plain''), (''out'', Dir), (''src'', Dir),
                    (''src/a.c'', File ''int main(){}'')] (output_dir demo_retained)
   \<and> iterdir [(''out/a_O1_D1.out'', File ''plain''), (''out'', Dir), (''src'', Dir),
               (''src/a.c'', File ''int main(){}'')] (output_dir demo_retained) \<noteq> []
   \<and> fst (BinaryAnalyzer_cleanup demo_retained demo_fs_after) = None"
proof -
  let ?fs' = "[(''out/a_O1_D1.out'', File ''plain''), (''out'', Dir), (''src'', Dir),
               (''src/a.c'', File ''int main(){}'')]"
  have d: "lookup demo_fs_after (output_dir demo_retained) = Some Dir"
    by (simp add: demo_retained_def demo_analyzer_def BinaryAnalyzer_init_def
          demo_fs_after_def lookup_def)
  have w1: "\<forall>b \<in> set (binaries demo_retained). lookup demo_fs_after (file_path b) \<noteq> Some Dir"
    by (simp add: demo_retained_def demo_binary_for_def demo_fs_after_def lookup_def)
  have w2: "\<forall>bytes. lookup demo_fs_after (output_dir demo_retained) \<noteq> Some (File bytes)"
    using d by simp
  have ex: "path_exists ?fs' (output_dir demo_retained)"
    by (simp add: demo_retained_def demo_analyzer_def BinaryAnalyzer_init_def
          path_exists_def lookup_def)
  have paths: "file_path ` set (binaries demo_retained)
                 = {''out/a_O0_D1.out'', ''out/a_O2_D1.out''}"
    by (simp add: demo_retained_def demo_binary_for_def)
  note inst = cleanup_removes_artifacts
      [where a = demo_retained and fs = demo_fs_after
         and a' = "demo_retained \<lparr> binaries := [] \<rparr>" and fs' = ?fs']
  from inst demo_cleanup d have
    1: "\<forall>b \<in> set (binaries demo_retained). \<not> path_exists ?fs' (file_path b)"
    and 2: "\<not> path_exists ?fs' (output_dir demo_retained)
              \<longleftrightarrow> iterdir ?fs' (output_dir demo_retained) = []"
    by blast+
  from 1 have "\<forall>p \<in> file_path ` set (binaries demo_retained). \<not> path_exists ?fs' p" by blast
  then have gone: "\<not> path_exists ?fs' ''out/a_O0_D1.out'' \<and> \<not> path_exists ?fs' ''out/a_O2_D1.out''"
    unfolding paths by blast
  from inst w1 w2 have 3: "fst (BinaryAnalyzer_cleanup demo_retained demo_fs_after) = None"
    by blast
  from demo_cleanup d gone 2 3 ex show ?thesis by blast
qed

end
